theory Spec2Isabelle
  imports Main "HOL-Library.Sublist" "HOL-Library.AList"
begin

section \<open>Strings\<close>

text \<open>
  JavaScript strings are modelled as \<^typ>\<open>string\<close>. \<open>trim\<close> is
  \<^verbatim>\<open>String.prototype.trim\<close>: it drops white space and line terminators from both
  ends. Only the ASCII white space characters are representable in \<^typ>\<open>char\<close>; every
  template of the program starts and ends (after one line feed) with a fixed ASCII
  character that is not white space, so no other white space is ever inspected.
\<close>

definition is_white_space :: "char \<Rightarrow> bool" where
  "is_white_space c =
     (c = CHR 0x09 \<or> c = CHR 0x0A \<or> c = CHR 0x0B \<or> c = CHR 0x0C \<or> c = CHR 0x0D \<or> c = CHR 0x20)"

definition trim :: "string \<Rightarrow> string" where
  "trim s = rev (dropWhile is_white_space (rev (dropWhile is_white_space s)))"

definition lower_char :: "char \<Rightarrow> char" where
  "lower_char c =
     (let n = (of_char c :: nat) in if 65 \<le> n \<and> n \<le> 90 then char_of (n + 32) else c)"

definition toLowerCase :: "string \<Rightarrow> string" where
  "toLowerCase s = map lower_char s"

section \<open>Paths\<close>

text \<open>
  A path is the list of its components below the root, already normalised.
  \<open>path_join base segs\<close> is \<^verbatim>\<open>path.join(base, ...segs)\<close> for an absolute,
  normalised \<open>base\<close>: the segments are joined with \<^verbatim>\<open>/\<close> and the result is
  normalised, so empty components and \<^verbatim>\<open>.\<close> disappear and \<^verbatim>\<open>..\<close> removes the
  component before it (and nothing at the root). A trailing separator is not
  represented.
\<close>

type_synonym path = "string list"

fun split_path :: "string \<Rightarrow> string \<Rightarrow> string list" where
  "split_path acc [] = [rev acc]"
| "split_path acc (c # cs) =
     (if c = CHR ''/'' then rev acc # split_path [] cs else split_path (c # acc) cs)"

fun normalize :: "string list \<Rightarrow> string list \<Rightarrow> path" where
  "normalize stack [] = rev stack"
| "normalize stack (c # cs) =
     (if c = [] \<or> c = ''.'' then normalize stack cs
      else if c = ''..'' then normalize (case stack of [] \<Rightarrow> [] | _ # up \<Rightarrow> up) cs
      else normalize (c # stack) cs)"

definition path_join :: "path \<Rightarrow> string list \<Rightarrow> path" where
  "path_join base segs = normalize (rev base) (concat (map (split_path []) segs))"

definition dirname :: "path \<Rightarrow> path" where
  "dirname p = (case p of [] \<Rightarrow> [] | _ \<Rightarrow> butlast p)"

section \<open>The file system\<close>

text \<open>
  The file system is a list of entries, in the order a directory traversal lists
  them; the root always exists. \<open>faults\<close> says which paths cannot be created or
  written, and with which error (permissions, a read-only or full disk).
  Every operation returns how it completed together with the file system it left
  behind, which is the changed one also when it throws half-way.
\<close>

datatype node = File string | Dir

datatype errno = ENOENT | ENOTDIR | EISDIR | EEXIST | EACCES | EROFS | ENOSPC

datatype error =
    SystemError errno path
  | LibraryError string
  | ReferenceError string

datatype 'a completion = Normal 'a | Throw error

type_synonym fsmap = "(path \<times> node) list"

type_synonym faultmap = "path \<Rightarrow> errno option"

definition lookup :: "fsmap \<Rightarrow> path \<Rightarrow> node option" where
  "lookup t p = (if p = [] then Some Dir else map_of t p)"

definition is_file :: "fsmap \<Rightarrow> path \<Rightarrow> bool" where
  "is_file t p = (case lookup t p of Some (File _) \<Rightarrow> True | _ \<Rightarrow> False)"

definition exists_node :: "path \<Rightarrow> fsmap \<Rightarrow> bool" where
  "exists_node p t = (lookup t p \<noteq> None)"

definition mkdir_node :: "faultmap \<Rightarrow> path \<Rightarrow> fsmap \<Rightarrow> unit completion \<times> fsmap" where
  "mkdir_node F p t =
     (if lookup t p \<noteq> None then (Throw (SystemError EEXIST p), t)
      else case lookup t (dirname p) of
             None \<Rightarrow> (Throw (SystemError ENOENT p), t)
           | Some (File _) \<Rightarrow> (Throw (SystemError ENOTDIR p), t)
           | Some Dir \<Rightarrow>
               (case F p of
                  Some e \<Rightarrow> (Throw (SystemError e p), t)
                | None \<Rightarrow> (Normal (), AList.update p Dir t)))"

text \<open>\<^verbatim>\<open>fs.mkdirSync(p, { recursive: true })\<close>: the components are created from the
  root downwards; the ones created before a failure stay.\<close>

fun mkdirs :: "faultmap \<Rightarrow> path \<Rightarrow> string list \<Rightarrow> fsmap \<Rightarrow> unit completion \<times> fsmap" where
  "mkdirs F pre [] t = (Normal (), t)"
| "mkdirs F pre (c # cs) t =
     (let p = pre @ [c] in
      case lookup t p of
        Some Dir \<Rightarrow> mkdirs F p cs t
      | Some (File _) \<Rightarrow> (Throw (SystemError (if cs = [] then EEXIST else ENOTDIR) p), t)
      | None \<Rightarrow>
          (case F p of
             Some e \<Rightarrow> (Throw (SystemError e p), t)
           | None \<Rightarrow> mkdirs F p cs (AList.update p Dir t)))"

definition mkdir_p :: "faultmap \<Rightarrow> path \<Rightarrow> fsmap \<Rightarrow> unit completion \<times> fsmap" where
  "mkdir_p F p t = mkdirs F [] p t"

definition write_node :: "faultmap \<Rightarrow> path \<Rightarrow> string \<Rightarrow> fsmap \<Rightarrow> unit completion \<times> fsmap" where
  "write_node F p content t =
     (if p = [] then (Throw (SystemError EISDIR p), t)
      else case lookup t (dirname p) of
             None \<Rightarrow> (Throw (SystemError ENOENT p), t)
           | Some (File _) \<Rightarrow> (Throw (SystemError ENOTDIR p), t)
           | Some Dir \<Rightarrow>
               (case lookup t p of
                  Some Dir \<Rightarrow> (Throw (SystemError EISDIR p), t)
                | _ \<Rightarrow>
                    (case F p of
                       Some e \<Rightarrow> (Throw (SystemError e p), t)
                     | None \<Rightarrow> (Normal (), AList.update p (File content) t))))"

subsection \<open>Recursive copy\<close>

text \<open>
  \<^verbatim>\<open>fs.copySync(src, dest)\<close> of the fs-extra library with its default options
  (existing files are overwritten, existing directories are merged into).
  It refuses a missing source, a destination that is the source or lies inside it, and
  replacing a file by a directory or a directory by a file; it creates the parent of the
  destination when that is missing; then it visits the entries of the source tree in
  listing order and stops at the first error, leaving what it has copied.
\<close>

definition subtree :: "fsmap \<Rightarrow> path \<Rightarrow> (path \<times> node) list" where
  "subtree t src =
     List.map_filter (\<lambda>p. if prefix src p then map_option (Pair p) (map_of t p) else None)
       (remdups (map fst t))"

definition copy_entry :: "faultmap \<Rightarrow> path \<Rightarrow> node \<Rightarrow> fsmap \<Rightarrow> unit completion \<times> fsmap" where
  "copy_entry F target n t =
     (case n of
        Dir \<Rightarrow>
          (case lookup t target of
             None \<Rightarrow> mkdir_node F target t
           | Some Dir \<Rightarrow> (Normal (), t)
           | Some (File _) \<Rightarrow>
               (Throw (LibraryError ''Cannot overwrite non-directory with directory''), t))
      | File content \<Rightarrow>
          (case lookup t target of
             Some Dir \<Rightarrow>
               (Throw (LibraryError ''Cannot overwrite directory with non-directory''), t)
           | _ \<Rightarrow> write_node F target content t))"

fun copy_entries ::
  "faultmap \<Rightarrow> path \<Rightarrow> path \<Rightarrow> (path \<times> node) list \<Rightarrow> fsmap \<Rightarrow> unit completion \<times> fsmap" where
  "copy_entries F src dest [] t = (Normal (), t)"
| "copy_entries F src dest ((p, n) # es) t =
     (case copy_entry F (dest @ drop (length src) p) n t of
        (Throw e, t') \<Rightarrow> (Throw e, t')
      | (Normal _, t') \<Rightarrow> copy_entries F src dest es t')"

definition copy_tree :: "faultmap \<Rightarrow> path \<Rightarrow> path \<Rightarrow> fsmap \<Rightarrow> unit completion \<times> fsmap" where
  "copy_tree F src dest t =
     (case lookup t src of
        None \<Rightarrow> (Throw (SystemError ENOENT src), t)
      | Some n \<Rightarrow>
          if src = dest then
            (Throw (LibraryError ''Source and destination must not be the same.''), t)
          else if n = Dir \<and> is_file t dest then
            (Throw (LibraryError ''Cannot overwrite non-directory with directory''), t)
          else if n \<noteq> Dir \<and> lookup t dest = Some Dir then
            (Throw (LibraryError ''Cannot overwrite directory with non-directory''), t)
          else if n = Dir \<and> prefix src dest then
            (Throw (LibraryError ''Cannot copy to a subdirectory of itself''), t)
          else
            (case (if exists_node (dirname dest) t then (Normal (), t)
                   else mkdir_p F (dirname dest) t) of
               (Throw e, t') \<Rightarrow> (Throw e, t')
             | (Normal _, t') \<Rightarrow> copy_entries F src dest (subtree t src) t'))"


section \<open>The process\<close>

text \<open>
  What a run can observe and change: the file system and its faults, the path of the
  working directory, the directory of the module (\<^verbatim>\<open>__dirname\<close>), the lines printed
  on the console, and the questions asked on the terminal.
\<close>

datatype colour = Blue | Green | Red

datatype message =
    ConsoleLog colour string
  | ConsoleError string error

record world =
  fs :: fsmap
  faults :: faultmap
  cwd :: path
  module_dirname :: path
  out :: "message list"
  prompts :: "string list"

type_synonym 'a action = "world \<Rightarrow> 'a completion \<times> world"

definition console_log :: "colour \<Rightarrow> string \<Rightarrow> world \<Rightarrow> world" where
  "console_log c s w = w\<lparr>out := out w @ [ConsoleLog c s]\<rparr>"

definition console_error :: "string \<Rightarrow> error \<Rightarrow> world \<Rightarrow> world" where
  "console_error s err w = w\<lparr>out := out w @ [ConsoleError s err]\<rparr>"

text \<open>\<^verbatim>\<open>process.cwd()\<close> returns the working directory while that directory exists; once
  it has been removed the call throws \<^verbatim>\<open>ENOENT\<close> (from \<^verbatim>\<open>uv_cwd\<close>, with no path).\<close>

definition process_cwd :: "world \<Rightarrow> path completion" where
  "process_cwd w =
     (if lookup (fs w) (cwd w) = Some Dir then Normal (cwd w)
      else Throw (SystemError ENOENT []))"

definition existsSync :: "path \<Rightarrow> world \<Rightarrow> bool" where
  "existsSync p w = exists_node p (fs w)"

definition mkdirSync_recursive :: "path \<Rightarrow> unit action" where
  "mkdirSync_recursive p w = (case mkdir_p (faults w) p (fs w) of (r, t) \<Rightarrow> (r, w\<lparr>fs := t\<rparr>))"

definition writeFileSync :: "path \<Rightarrow> string \<Rightarrow> unit action" where
  "writeFileSync p content w =
     (case write_node (faults w) p content (fs w) of (r, t) \<Rightarrow> (r, w\<lparr>fs := t\<rparr>))"

definition copySync :: "path \<Rightarrow> path \<Rightarrow> unit action" where
  "copySync src dest w =
     (case copy_tree (faults w) src dest (fs w) of (r, t) \<Rightarrow> (r, w\<lparr>fs := t\<rparr>))"

definition try_catch :: "unit action \<Rightarrow> (error \<Rightarrow> unit action) \<Rightarrow> unit action" where
  "try_catch body handler w =
     (case body w of
        (Throw err, w') \<Rightarrow> handler err w'
      | (Normal u, w') \<Rightarrow> (Normal u, w'))"

section \<open>Templates\<close>

definition unlines :: "string list \<Rightarrow> string" where
  "unlines ls = concat (map (\<lambda>l. l @ [CHR 0x0A]) ls)"

definition componentTemplate :: "string \<Rightarrow> string" where
  "componentTemplate componentName = unlines
     [[],
      ''import React from 'react';'',
      [],
      ''const '' @ componentName @ '' = () => {'',
      ''  return ('',
      ''    <div>'',
      ''      <h1>'' @ componentName @ ''</h1>'',
      ''    </div>'',
      ''  );'',
      ''};'',
      ''export default '' @ componentName @ '';'']"

definition modelTemplate :: "string \<Rightarrow> string" where
  "modelTemplate modelName = unlines
     [[],
      ''import mongoose from 'mongoose';'',
      [],
      ''const '' @ modelName @ ''Schema = new mongoose.Schema({'',
      ''  // Define your schema here'',
      ''  name: { type: String, required: true },'',
      ''  createdAt: { type: Date, default: Date.now },'',
      ''});'',
      [],
      ''const '' @ modelName @ '' = mongoose.model('' @ [CHR 0x27] @ modelName @ [CHR 0x27]
        @ '', '' @ modelName @ ''Schema);'',
      [],
      ''export default '' @ modelName @ '';'']"

definition controllerTemplate :: "string \<Rightarrow> string" where
  "controllerTemplate controllerName = ''//Your Code here''"

definition routeTemplate :: "string \<Rightarrow> string" where
  "routeTemplate routeName = unlines
     [[],
      ''import express from 'express';'',
      ''import { getAll'' @ routeName @ ''s, create'' @ routeName
        @ '' } from '../controllers/'' @ routeName @ ''.js';'',
      [],
      ''const router = express.Router();'',
      [],
      ''router.get('/', getAll'' @ routeName @ ''s);'',
      ''router.post('/', create'' @ routeName @ '');'',
      [],
      ''export default router;'']"

definition middlewareTemplate :: "string \<Rightarrow> string" where
  "middlewareTemplate fileName = unlines
     [[],
      ''// Middleware boilerplate for '' @ fileName,
      [],
      ''const '' @ fileName @ '' = (req, res, next) => {'',
      ''  // Your middleware logic here'',
      ''  console.log('' @ [CHR 0x27] @ fileName @ '' middleware triggered');'',
      ''  next();'',
      ''};'',
      [],
      ''export default '' @ fileName @ '';'']"

section \<open>The commands\<close>

text \<open>Each action is the function passed to \<^verbatim>\<open>.action\<close> for the command of that name,
  applied to the command's argument. Every action calls \<^verbatim>\<open>process.cwd()\<close> before it
  prints anything and before its \<^verbatim>\<open>try\<close> block, so what that call throws leaves the
  action uncaught.\<close>

definition express :: "string \<Rightarrow> unit action" where
  "express projectName w =
     (case process_cwd w of
        Throw e \<Rightarrow> (Throw e, w)
      | Normal wd \<Rightarrow>
          (let templateDir = path_join (module_dirname w) [''templates'', ''express''];
               destinationDir = path_join wd [projectName];
               w = console_log Blue (''Creating Express project: '' @ projectName) w
           in try_catch
                (\<lambda>w. case copySync templateDir destinationDir w of
                        (Throw e, w) \<Rightarrow> (Throw e, w)
                      | (Normal _, w) \<Rightarrow>
                          (Normal (), console_log Green ''Express project created successfully!'' w))
                (\<lambda>err w. (Normal (), console_error ''Error copying template files:'' err w))
                w))"

definition react :: "string \<Rightarrow> unit action" where
  "react projectName w =
     (case process_cwd w of
        Throw e \<Rightarrow> (Throw e, w)
      | Normal wd \<Rightarrow>
          (let templateDir = path_join (module_dirname w) [''templates'', ''react''];
               destinationDir = path_join wd [projectName];
               w = console_log Blue (''Creating React project: '' @ projectName) w
           in try_catch
                (\<lambda>w. case copySync templateDir destinationDir w of
                        (Throw e, w) \<Rightarrow> (Throw e, w)
                      | (Normal _, w) \<Rightarrow>
                          (Normal (), console_log Green ''React project created successfully!'' w))
                (\<lambda>err w. (Normal (), console_error ''Error copying template files:'' err w))
                w))"

definition react_component :: "string \<Rightarrow> unit action" where
  "react_component componentName w =
     (case process_cwd w of
        Throw e \<Rightarrow> (Throw e, w)
      | Normal wd \<Rightarrow>
          (let componentDir = path_join wd [''src'', ''components''];
               componentFile = path_join componentDir [componentName @ ''.jsx''];
               w = console_log Blue (''Creating React component: '' @ componentName) w
           in try_catch
                (\<lambda>w. case (if \<not> existsSync componentDir w then mkdirSync_recursive componentDir w
                            else (Normal (), w)) of
                        (Throw e, w) \<Rightarrow> (Throw e, w)
                      | (Normal _, w) \<Rightarrow>
                          (case writeFileSync componentFile (trim (componentTemplate componentName)) w of
                             (Throw e, w) \<Rightarrow> (Throw e, w)
                           | (Normal _, w) \<Rightarrow>
                               (Normal (),
                                console_log Green
                                  (''Component '' @ componentName @ '' created successfully!'') w)))
                (\<lambda>err w. (Normal (), console_error ''Error creating component:'' err w))
                w))"

definition express_model :: "string \<Rightarrow> unit action" where
  "express_model modelName w =
     (case process_cwd w of
        Throw e \<Rightarrow> (Throw e, w)
      | Normal wd \<Rightarrow>
          (let modelDir = path_join wd [''models''];
               modelFile = path_join modelDir [modelName @ ''.js''];
               w = console_log Blue (''Creating MongoDB model: '' @ modelName) w
           in try_catch
                (\<lambda>w. case (if \<not> existsSync modelDir w then mkdirSync_recursive modelDir w
                            else (Normal (), w)) of
                        (Throw e, w) \<Rightarrow> (Throw e, w)
                      | (Normal _, w) \<Rightarrow>
                          if existsSync modelFile w then
                            (Normal (), console_log Red (''Model '' @ modelName @ '' already exists.'') w)
                          else
                            (case writeFileSync modelFile (trim (modelTemplate modelName)) w of
                               (Throw e, w) \<Rightarrow> (Throw e, w)
                             | (Normal _, w) \<Rightarrow>
                                 (Normal (),
                                  console_log Green
                                    (''Model '' @ modelName @ '' created successfully!'') w)))
                (\<lambda>err w. (Normal (), console_error ''Error creating model:'' err w))
                w))"

definition express_controller :: "string \<Rightarrow> unit action" where
  "express_controller controllerName w =
     (case process_cwd w of
        Throw e \<Rightarrow> (Throw e, w)
      | Normal wd \<Rightarrow>
          (let controllerDir = path_join wd [''controllers''];
               controllerFile = path_join controllerDir [controllerName @ ''.js''];
               w = console_log Blue (''Creating MongoDB controller: '' @ controllerName) w
           in try_catch
                (\<lambda>w. case (if \<not> existsSync controllerDir w then mkdirSync_recursive controllerDir w
                            else (Normal (), w)) of
                        (Throw e, w) \<Rightarrow> (Throw e, w)
                      | (Normal _, w) \<Rightarrow>
                          if existsSync controllerFile w then
                            (Normal (),
                             console_log Red (''Controller '' @ controllerName @ '' already exists.'') w)
                          else
                            (case writeFileSync controllerFile
                                    (trim (controllerTemplate controllerName)) w of
                               (Throw e, w) \<Rightarrow> (Throw e, w)
                             | (Normal _, w) \<Rightarrow>
                                 (Normal (),
                                  console_log Green
                                    (''Controller '' @ controllerName @ '' created successfully!'') w)))
                (\<lambda>err w. (Normal (), console_error ''Error creating controller:'' err w))
                w))"

definition express_route :: "string \<Rightarrow> unit action" where
  "express_route routeName w =
     (case process_cwd w of
        Throw e \<Rightarrow> (Throw e, w)
      | Normal wd \<Rightarrow>
          (let routeDir = path_join wd [''routes''];
               routeFile = path_join routeDir [routeName @ ''.js''];
               w = console_log Blue (''Creating route for: '' @ routeName) w
           in try_catch
                (\<lambda>w. case (if \<not> existsSync routeDir w then mkdirSync_recursive routeDir w
                            else (Normal (), w)) of
                        (Throw e, w) \<Rightarrow> (Throw e, w)
                      | (Normal _, w) \<Rightarrow>
                          if existsSync routeFile w then
                            (Normal (), console_log Red (''Route '' @ routeName @ '' already exists.'') w)
                          else
                            (case writeFileSync routeFile (trim (routeTemplate routeName)) w of
                               (Throw e, w) \<Rightarrow> (Throw e, w)
                             | (Normal _, w) \<Rightarrow>
                                 (Normal (),
                                  console_log Green
                                    (''Route '' @ routeName @ '' created successfully!'') w)))
                (\<lambda>err w. (Normal (), console_error ''Error creating route:'' err w))
                w))"

definition express_middleware :: "string \<Rightarrow> unit action" where
  "express_middleware fileName w =
     (case process_cwd w of
        Throw e \<Rightarrow> (Throw e, w)
      | Normal wd \<Rightarrow>
          (let middlewareDir = path_join wd [''middlewares''];
               middlewareFile = path_join middlewareDir [fileName @ ''.js''];
               w = console_log Blue (''Creating middleware file: '' @ fileName) w
           in try_catch
                (\<lambda>w. case (if \<not> existsSync middlewareDir w then mkdirSync_recursive middlewareDir w
                            else (Normal (), w)) of
                        (Throw e, w) \<Rightarrow> (Throw e, w)
                      | (Normal _, w) \<Rightarrow>
                          if existsSync middlewareFile w then
                            (Normal (),
                             console_log Red (''Middleware '' @ fileName @ '' already exists.'') w)
                          else
                            (case writeFileSync middlewareFile (trim (middlewareTemplate fileName)) w of
                               (Throw e, w) \<Rightarrow> (Throw e, w)
                             | (Normal _, w) \<Rightarrow>
                                 (Normal (),
                                  console_log Green
                                    (''Middleware '' @ fileName @ '' created successfully!'') w)))
                (\<lambda>err w. (Normal (), console_error ''Error creating middleware file:'' err w))
                w))"

subsection \<open>The dispatcher and the exit status\<close>

text \<open>
  \<^verbatim>\<open>program.parse(process.argv)\<close> runs the action of the command named on the command
  line with its argument. No action sets an exit code, so the process ends with status
  0 when the action returns and with status 1 when an exception leaves it uncaught.
\<close>

datatype command =
    Express | React | ReactComponent
  | ExpressModel | ExpressController | ExpressRoute | ExpressMiddleware

fun run_command :: "command \<Rightarrow> string \<Rightarrow> unit action" where
  "run_command Express = express"
| "run_command React = react"
| "run_command ReactComponent = react_component"
| "run_command ExpressModel = express_model"
| "run_command ExpressController = express_controller"
| "run_command ExpressRoute = express_route"
| "run_command ExpressMiddleware = express_middleware"

definition exit_status :: "unit completion \<times> world \<Rightarrow> nat" where
  "exit_status r = (case fst r of Normal _ \<Rightarrow> 0 | Throw _ \<Rightarrow> 1)"

subsection \<open>The confirmation helper\<close>

text \<open>
  The names bound in the module are its imports and its top-level constants.
  An identifier is resolved in the module and then among the globals of the runtime,
  which are a parameter; an unbound identifier throws a reference error.
  \<open>askUserConfirmation\<close> first evaluates \<^verbatim>\<open>readline.createInterface\<close>; with that it
  would ask the question on the terminal and return a promise that resolves to whether
  the answer, in lower case, is \<^verbatim>\<open>y\<close>.
\<close>

definition module_scope :: "string list" where
  "module_scope =
     [''Command'', ''chalk'', ''fs'', ''path'', ''fileURLToPath'',
      ''__filename'', ''__dirname'', ''program'', ''askUserConfirmation'']"

definition resolve :: "string list \<Rightarrow> string \<Rightarrow> unit completion" where
  "resolve globals x =
     (if x \<in> set module_scope \<or> x \<in> set globals then Normal () else Throw (ReferenceError x))"

datatype promise = Promise "string \<Rightarrow> bool"

definition askUserConfirmation :: "string list \<Rightarrow> string \<Rightarrow> promise action" where
  "askUserConfirmation globals question w =
     (case resolve globals ''readline'' of
        Throw e \<Rightarrow> (Throw e, w)
      | Normal _ \<Rightarrow>
          (case resolve globals ''process'' of
             Throw e \<Rightarrow> (Throw e, w)
           | Normal _ \<Rightarrow>
               (case resolve globals ''Promise'' of
                  Throw e \<Rightarrow> (Throw e, w)
                | Normal _ \<Rightarrow>
                    (Normal (Promise (\<lambda>answer. toLowerCase answer = ''y'')),
                     w\<lparr>prompts := prompts w @ [question]\<rparr>))))"

subsection \<open>What the commands compute\<close>

text \<open>
  For the statements below: the directory, the file and the content that the action
  of a file command computes from its argument, and the template and destination
  directories of a project command; none of them where \<^verbatim>\<open>process.cwd()\<close> throws, since
  the action then computes nothing.
\<close>

fun generated_in :: "path \<Rightarrow> command \<Rightarrow> string \<Rightarrow> (path \<times> path \<times> string) option" where
  "generated_in wd ReactComponent name =
     (let dir = path_join wd [''src'', ''components'']
      in Some (dir, path_join dir [name @ ''.jsx''], trim (componentTemplate name)))"
| "generated_in wd ExpressModel name =
     (let dir = path_join wd [''models'']
      in Some (dir, path_join dir [name @ ''.js''], trim (modelTemplate name)))"
| "generated_in wd ExpressController name =
     (let dir = path_join wd [''controllers'']
      in Some (dir, path_join dir [name @ ''.js''], trim (controllerTemplate name)))"
| "generated_in wd ExpressRoute name =
     (let dir = path_join wd [''routes'']
      in Some (dir, path_join dir [name @ ''.js''], trim (routeTemplate name)))"
| "generated_in wd ExpressMiddleware name =
     (let dir = path_join wd [''middlewares'']
      in Some (dir, path_join dir [name @ ''.js''], trim (middlewareTemplate name)))"
| "generated_in wd Express name = None"
| "generated_in wd React name = None"

definition generated :: "command \<Rightarrow> string \<Rightarrow> world \<Rightarrow> (path \<times> path \<times> string) option" where
  "generated c name w =
     (case process_cwd w of Throw _ \<Rightarrow> None | Normal wd \<Rightarrow> generated_in wd c name)"

fun project_in :: "path \<Rightarrow> path \<Rightarrow> command \<Rightarrow> string \<Rightarrow> (path \<times> path) option" where
  "project_in md wd Express name =
     Some (path_join md [''templates'', ''express''], path_join wd [name])"
| "project_in md wd React name =
     Some (path_join md [''templates'', ''react''], path_join wd [name])"
| "project_in md wd c name = None"

definition project :: "command \<Rightarrow> string \<Rightarrow> world \<Rightarrow> (path \<times> path) option" where
  "project c name w =
     (case process_cwd w of
        Throw _ \<Rightarrow> None
      | Normal wd \<Rightarrow> project_in (module_dirname w) wd c name)"

text \<open>A run reports success when it returns and the last line it printed is a green
  one.\<close>

definition reports_success :: "unit completion \<times> world \<Rightarrow> bool" where
  "reports_success r =
     (fst r = Normal () \<and>
      (case rev (out (snd r)) of ConsoleLog Green _ # _ \<Rightarrow> True | _ \<Rightarrow> False))"

text \<open>
  What the file system calls in the \<^verbatim>\<open>try\<close> block of a command do, read off the file
  system alone: the error they throw, if any, and whether the existence check of a
  guarded file command finds the file. \<open>error_label\<close> is the text each \<^verbatim>\<open>catch\<close> block
  passes to \<^verbatim>\<open>console.error\<close> before the error.
\<close>

definition ensure_dir :: "faultmap \<Rightarrow> path \<Rightarrow> fsmap \<Rightarrow> unit completion \<times> fsmap" where
  "ensure_dir F dir t = (if exists_node dir t then (Normal (), t) else mkdir_p F dir t)"

definition write_thrown ::
  "bool \<Rightarrow> faultmap \<Rightarrow> path \<Rightarrow> path \<Rightarrow> string \<Rightarrow> fsmap \<Rightarrow> error option" where
  "write_thrown guard F dir file content t =
     (case ensure_dir F dir t of
        (Throw err, _) \<Rightarrow> Some err
      | (Normal _, t1) \<Rightarrow>
          if guard \<and> exists_node file t1 then None
          else (case write_node F file content t1 of
                  (Throw err, _) \<Rightarrow> Some err
                | (Normal _, _) \<Rightarrow> None))"

definition write_skipped :: "bool \<Rightarrow> faultmap \<Rightarrow> path \<Rightarrow> path \<Rightarrow> fsmap \<Rightarrow> bool" where
  "write_skipped guard F dir file t =
     (case ensure_dir F dir t of
        (Throw err, _) \<Rightarrow> False
      | (Normal _, t1) \<Rightarrow> guard \<and> exists_node file t1)"

definition thrown :: "command \<Rightarrow> string \<Rightarrow> world \<Rightarrow> error option" where
  "thrown c name w =
     (case project c name w of
        Some (src, dest) \<Rightarrow>
          (case copy_tree (faults w) src dest (fs w) of
             (Throw err, _) \<Rightarrow> Some err
           | (Normal _, _) \<Rightarrow> None)
      | None \<Rightarrow>
          (case generated c name w of
             Some (dir, file, content) \<Rightarrow>
               write_thrown (c \<noteq> ReactComponent) (faults w) dir file content (fs w)
           | None \<Rightarrow> None))"

definition already_exists :: "command \<Rightarrow> string \<Rightarrow> world \<Rightarrow> bool" where
  "already_exists c name w =
     (case generated c name w of
        Some (dir, file, content) \<Rightarrow>
          write_skipped (c \<noteq> ReactComponent) (faults w) dir file (fs w)
      | None \<Rightarrow> False)"

fun error_label :: "command \<Rightarrow> string" where
  "error_label Express = ''Error copying template files:''"
| "error_label React = ''Error copying template files:''"
| "error_label ReactComponent = ''Error creating component:''"
| "error_label ExpressModel = ''Error creating model:''"
| "error_label ExpressController = ''Error creating controller:''"
| "error_label ExpressRoute = ''Error creating route:''"
| "error_label ExpressMiddleware = ''Error creating middleware file:''"

text \<open>The files below a directory, by their paths relative to it, with their contents.\<close>

definition files_under :: "fsmap \<Rightarrow> path \<Rightarrow> (path \<times> string) set" where
  "files_under t d = {(rel, content). lookup t (d @ rel) = Some (File content)}"

text \<open>
  The shape the five file actions share, for the proofs: the body of the
  \<^verbatim>\<open>try\<close> with its handler, with the existence check of the file present
  (\<open>guard\<close>) or not.
\<close>

definition emit ::
  "bool \<Rightarrow> path \<Rightarrow> path \<Rightarrow> string \<Rightarrow> string \<Rightarrow> string \<Rightarrow> string \<Rightarrow> unit action" where
  "emit guard dir file content exists_msg created_msg label w =
     try_catch
       (\<lambda>w. case (if \<not> existsSync dir w then mkdirSync_recursive dir w else (Normal (), w)) of
               (Throw e, w) \<Rightarrow> (Throw e, w)
             | (Normal _, w) \<Rightarrow>
                 if guard \<and> existsSync file w then (Normal (), console_log Red exists_msg w)
                 else
                   (case writeFileSync file content w of
                      (Throw e, w) \<Rightarrow> (Throw e, w)
                    | (Normal _, w) \<Rightarrow> (Normal (), console_log Green created_msg w)))
       (\<lambda>err w. (Normal (), console_error label err w))
       w"

subsection \<open>Example states\<close>

text \<open>A project directory with nothing in it yet, and one whose \<^verbatim>\<open>Header\<close> component
  has been written by hand.\<close>

definition fresh_project :: world where
  "fresh_project =
     \<lparr>fs = [([''home''], Dir), ([''home'', ''app''], Dir)],
      faults = (\<lambda>_. None),
      cwd = [''home'', ''app''],
      module_dirname = [''opt'', ''mern-cli''],
      out = [],
      prompts = []\<rparr>"

definition edited_component :: world where
  "edited_component =
     \<lparr>fs = [([''home''], Dir), ([''home'', ''app''], Dir), ([''home'', ''app'', ''src''], Dir),
            ([''home'', ''app'', ''src'', ''components''], Dir),
            ([''home'', ''app'', ''src'', ''components'', ''Header.jsx''],
             File ''export default function Header() { return null; }'')],
      faults = (\<lambda>_. None),
      cwd = [''home'', ''app''],
      module_dirname = [''opt'', ''mern-cli''],
      out = [],
      prompts = []\<rparr>"

text \<open>A project on a read-only file system, and a process whose working directory has
  been removed.\<close>

definition read_only_project :: world where
  "read_only_project = fresh_project\<lparr>faults := (\<lambda>_. Some EROFS)\<rparr>"

definition removed_cwd :: world where
  "removed_cwd = fresh_project\<lparr>fs := [([''home''], Dir)]\<rparr>"

text \<open>The tool installed with its Express template (the file
  \<^verbatim>\<open>templates/express/index.js\<close>) and no React template; the same with a project
  directory \<^verbatim>\<open>shop\<close> that already holds a file; and the same on a disk with no room
  for the copy of \<^verbatim>\<open>index.js\<close>.\<close>

definition express_index_js :: string where
  "express_index_js = butlast (unlines
     [''const express = require('express');'',
      ''const app = express();'',
      ''const PORT = process.env.PORT || 3000;'',
      [],
      ''// Middleware'',
      ''app.use(express.json());'',
      [],
      ''// Routes'',
      ''app.use('/', require('./routes'));'',
      [],
      ''// Start the server'',
      ''app.listen(PORT, () => {'',
      ''  console.log(`Server running on http://localhost:${PORT}`);'',
      ''});''])"

definition installed_cli :: world where
  "installed_cli =
     \<lparr>fs = [([''home''], Dir), ([''home'', ''app''], Dir),
            ([''opt''], Dir), ([''opt'', ''mern-cli''], Dir),
            ([''opt'', ''mern-cli'', ''templates''], Dir),
            ([''opt'', ''mern-cli'', ''templates'', ''express''], Dir),
            ([''opt'', ''mern-cli'', ''templates'', ''express'', ''index.js''],
             File express_index_js)],
      faults = (\<lambda>_. None),
      cwd = [''home'', ''app''],
      module_dirname = [''opt'', ''mern-cli''],
      out = [],
      prompts = []\<rparr>"

definition existing_shop :: world where
  "existing_shop =
     installed_cli\<lparr>fs := fs installed_cli @
       [([''home'', ''app'', ''shop''], Dir),
        ([''home'', ''app'', ''shop'', ''notes.txt''], File ''deploy on Friday'')]\<rparr>"

definition full_disk :: world where
  "full_disk =
     installed_cli\<lparr>faults := (\<lambda>p. if p = [''home'', ''app'', ''shop'', ''index.js'']
                                  then Some ENOSPC else None)\<rparr>"

section \<open>Properties\<close>

lemmas action_defs = express_def react_def react_component_def express_model_def
  express_controller_def express_route_def express_middleware_def

lemmas world_defs = try_catch_def console_log_def console_error_def existsSync_def
  mkdirSync_recursive_def writeFileSync_def copySync_def

lemma process_cwd_cases:
  "process_cwd w = Normal (cwd w) \<or> process_cwd w = Throw (SystemError ENOENT [])"
  by (simp add: process_cwd_def)

lemma returns_needs_cwd:
  "fst (run_command c name w) = Normal () \<Longrightarrow> process_cwd w = Normal (cwd w)"
  using process_cwd_cases [of w] by (cases c) (auto simp: action_defs)

lemma success_needs_cwd:
  "reports_success (run_command c name w) \<Longrightarrow> process_cwd w = Normal (cwd w)"
  using returns_needs_cwd [of c name w] by (simp add: reports_success_def)

lemma generated_cwd:
  "generated c name w = Some g \<Longrightarrow> process_cwd w = Normal (cwd w)"
  using process_cwd_cases [of w] by (auto simp: generated_def)

lemma project_cwd:
  "project c name w = Some g \<Longrightarrow> process_cwd w = Normal (cwd w)"
  using process_cwd_cases [of w] by (auto simp: project_def)

lemmas fs_defs = lookup_def exists_node_def is_file_def mkdir_node_def mkdir_p_def write_node_def
  dirname_def path_join_def process_cwd_def generated_def project_def

subsection \<open>The file system operations\<close>

lemma lookup_update:
  "p \<noteq> [] \<Longrightarrow> lookup (AList.update p n t) q = (if q = p then Some n else lookup t q)"
  by (simp add: lookup_def update_conv')

lemma mkdirs_keeps:
  "mkdirs F pre cs t = (r, t') \<Longrightarrow> lookup t q = Some n \<Longrightarrow> lookup t' q = Some n"
proof (induction cs arbitrary: pre t)
  case Nil
  then show ?case by simp
next
  case (Cons c cs)
  let ?p = "pre @ [c]"
  show ?case
  proof (cases "lookup t ?p = None \<and> F ?p = None")
    case True
    with Cons.prems(1) have rest: "mkdirs F ?p cs (AList.update ?p Dir t) = (r, t')"
      by (simp add: Let_def)
    from True Cons.prems(2) have "lookup (AList.update ?p Dir t) q = Some n"
      by (auto simp: lookup_update)
    with Cons.IH [OF rest] show ?thesis .
  next
    case False
    with Cons show ?thesis
      by (auto simp: Let_def split: option.splits node.splits if_splits)
  qed
qed

lemma mkdirs_files:
  "mkdirs F pre cs t = (r, t') \<Longrightarrow> lookup t' q = Some (File x) \<Longrightarrow> lookup t q = Some (File x)"
proof (induction cs arbitrary: pre t)
  case Nil
  then show ?case by simp
next
  case (Cons c cs)
  let ?p = "pre @ [c]"
  show ?case
  proof (cases "lookup t ?p = None \<and> F ?p = None")
    case True
    with Cons.prems(1) have rest: "mkdirs F ?p cs (AList.update ?p Dir t) = (r, t')"
      by (simp add: Let_def)
    from Cons.IH [OF rest Cons.prems(2)] show ?thesis
      by (auto simp: lookup_update split: if_splits)
  next
    case False
    with Cons show ?thesis
      by (auto simp: Let_def split: option.splits node.splits if_splits)
  qed
qed

lemma mkdirs_creates:
  "mkdirs F pre cs t = (Normal (), t') \<Longrightarrow> 0 < k \<Longrightarrow> k \<le> length cs \<Longrightarrow>
   lookup t' (pre @ take k cs) = Some Dir"
proof (induction cs arbitrary: pre t k)
  case Nil
  then show ?case by simp
next
  case (Cons c cs)
  let ?p = "pre @ [c]"
  from Cons.prems(1) obtain t1 where
    rest: "mkdirs F ?p cs t1 = (Normal (), t')" and here: "lookup t1 ?p = Some Dir"
    by (auto simp: Let_def lookup_update split: option.splits node.splits if_splits)
  show ?case
  proof (cases k)
    case 0
    with Cons.prems show ?thesis by simp
  next
    case (Suc j)
    show ?thesis
    proof (cases "j = 0")
      case True
      with Suc mkdirs_keeps [OF rest here] show ?thesis by simp
    next
      case False
      with Suc Cons.prems Cons.IH [OF rest, of j] show ?thesis by simp
    qed
  qed
qed

lemma mkdir_p_prefixes:
  assumes "mkdir_p F p t = (Normal (), t')" and "prefix q p"
  shows "lookup t' q = Some Dir"
proof (cases "q = []")
  case True
  then show ?thesis by (simp add: lookup_def)
next
  case False
  from assms(2) obtain r where p: "p = q @ r" by (auto simp: prefix_def)
  with False have "0 < length q" "length q \<le> length p" "take (length q) p = q" by auto
  with mkdirs_creates [of F "[]" p t t' "length q"] assms(1) show ?thesis
    by (simp add: mkdir_p_def)
qed

lemma write_node_result:
  "write_node F p c t = (r, t') \<Longrightarrow>
   (r = Normal () \<and> p \<noteq> [] \<and> t' = AList.update p (File c) t \<and> lookup t (dirname p) = Some Dir
      \<and> lookup t p \<noteq> Some Dir \<and> F p = None)
   \<or> ((\<exists>e. r = Throw e) \<and> t' = t)"
  by (auto simp: write_node_def split: if_splits option.splits node.splits)

subsection \<open>The recursive copy\<close>

lemmas copy_defs = copy_tree_def copy_entry_def subtree_def map_filter_def

lemma copy_entry_success:
  "copy_entry F tg n t = (Normal (), t1) \<Longrightarrow> lookup t1 q = (if q = tg then Some n else lookup t q)"
  by (auto simp: copy_entry_def mkdir_node_def write_node_def lookup_update
      split: node.splits option.splits if_splits)
    (auto simp: lookup_def update_conv')

lemma copy_entries_success:
  "copy_entries F src dest es t = (Normal (), t1) \<Longrightarrow>
   lookup t1 q = (lookup t ++ map_of (rev (map (\<lambda>(p, n). (dest @ drop (length src) p, n)) es))) q"
proof (induction es arbitrary: t)
  case Nil
  then show ?case by simp
next
  case (Cons e es)
  obtain p n where e: "e = (p, n)" by (cases e)
  from Cons.prems e obtain t0 where
    step: "copy_entry F (dest @ drop (length src) p) n t = (Normal (), t0)" and
    rest: "copy_entries F src dest es t0 = (Normal (), t1)"
    by (auto split: prod.splits completion.splits)
  from Cons.IH [OF rest] copy_entry_success [OF step] e show ?case
    by (auto simp: map_add_def split: option.splits)
qed

lemma subtree_keys:
  "map fst (subtree t src) = filter (\<lambda>p. prefix src p \<and> map_of t p \<noteq> None) (remdups (map fst t))"
proof -
  have "map fst (List.map_filter (\<lambda>p. if prefix src p then map_option (Pair p) (map_of t p) else None) ks)
      = filter (\<lambda>p. prefix src p \<and> map_of t p \<noteq> None) ks" for ks
    by (induction ks) (auto simp: map_filter_simps split: option.splits)
  then show ?thesis by (simp add: subtree_def)
qed

lemma subtree_distinct: "distinct (map fst (subtree t src))"
  by (simp add: subtree_keys)

lemma in_set_map_filter:
  "y \<in> set (List.map_filter f xs) \<longleftrightarrow> (\<exists>x \<in> set xs. f x = Some y)"
  by (induction xs) (auto simp: map_filter_simps split: option.splits)

lemma subtree_member:
  "(p, n) \<in> set (subtree t src) \<longleftrightarrow> prefix src p \<and> map_of t p = Some n"
proof -
  have "(p, n) \<in> set (subtree t src) \<longleftrightarrow>
      (\<exists>x \<in> set t. prefix src (fst x) \<and> map_of t (fst x) = Some n \<and> fst x = p)"
    unfolding subtree_def in_set_map_filter by (auto split: if_splits)
  also have "\<dots> \<longleftrightarrow> prefix src p \<and> map_of t p = Some n"
  proof
    assume "\<exists>x \<in> set t. prefix src (fst x) \<and> map_of t (fst x) = Some n \<and> fst x = p"
    then show "prefix src p \<and> map_of t p = Some n" by blast
  next
    assume a: "prefix src p \<and> map_of t p = Some n"
    then have "(p, n) \<in> set t" by (blast dest: map_of_SomeD)
    with a show "\<exists>x \<in> set t. prefix src (fst x) \<and> map_of t (fst x) = Some n \<and> fst x = p"
      by (intro bexI [of _ "(p, n)"]) simp_all
  qed
  finally show ?thesis .
qed

lemma copy_tree_success:
  assumes "copy_tree F src dest t = (Normal (), t1)"
  shows "lookup t1 (dest @ rel) = Some (File c) \<longleftrightarrow>
         lookup t (src @ rel) = Some (File c) \<or>
         (lookup t (dest @ rel) = Some (File c) \<and> map_of t (src @ rel) = None)"
proof -
  let ?target = "\<lambda>p. dest @ drop (length src) p"
  let ?m = "map (\<lambda>(p, n). (?target p, n)) (subtree t src)"
  from assms obtain t0 where
    src: "src \<noteq> []" and
    parent: "t0 = t \<or> mkdir_p F (dirname dest) t = (Normal (), t0)" and
    entries: "copy_entries F src dest (subtree t src) t0 = (Normal (), t1)"
    by (auto simp: copy_tree_def lookup_def split: option.splits if_splits prod.splits
        completion.splits)
  have inj: "inj_on ?target (set (map fst (subtree t src)))"
  proof (rule inj_onI)
    fix p q
    assume "p \<in> set (map fst (subtree t src))" "q \<in> set (map fst (subtree t src))"
      and eq: "?target p = ?target q"
    then have "prefix src p" "prefix src q" by (auto simp: subtree_member)
    then obtain a b where "p = src @ a" "q = src @ b" by (auto simp: prefix_def)
    with eq show "p = q" by simp
  qed
  have keys: "map fst ?m = map ?target (map fst (subtree t src))"
    by (simp add: case_prod_unfold)
  from inj subtree_distinct [of t src] have "distinct (map ?target (map fst (subtree t src)))"
    by (subst distinct_map) simp
  then have "distinct (map fst ?m)" by (simp only: keys)
  then have d: "distinct (map fst (rev ?m))" by (simp add: rev_map [symmetric])
  have mem: "map_of (rev ?m) (dest @ rel) = Some x \<longleftrightarrow> map_of t (src @ rel) = Some x" for x
  proof -
    have "map_of (rev ?m) (dest @ rel) = Some x \<longleftrightarrow> (dest @ rel, x) \<in> set ?m"
      using map_of_eq_Some_iff [OF d] by simp
    also have "\<dots> \<longleftrightarrow> (\<exists>p. (p, x) \<in> set (subtree t src) \<and> dest @ rel = ?target p)"
    proof
      assume "(dest @ rel, x) \<in> set ?m"
      then obtain p n where "(p, n) \<in> set (subtree t src)"
        and "(dest @ rel, x) = (?target p, n)" by auto
      then have "(p, x) \<in> set (subtree t src) \<and> dest @ rel = ?target p" by simp
      then show "\<exists>p. (p, x) \<in> set (subtree t src) \<and> dest @ rel = ?target p" ..
    next
      assume "\<exists>p. (p, x) \<in> set (subtree t src) \<and> dest @ rel = ?target p"
      then obtain p where "(p, x) \<in> set (subtree t src)" "dest @ rel = ?target p" by blast
      then show "(dest @ rel, x) \<in> set ?m" by (auto intro!: rev_image_eqI [of "(p, x)"])
    qed
    also have "\<dots> \<longleftrightarrow> (\<exists>p. prefix src p \<and> map_of t p = Some x \<and> rel = drop (length src) p)"
      by (auto simp: subtree_member)
    also have "\<dots> \<longleftrightarrow> map_of t (src @ rel) = Some x"
      by (auto simp: prefix_def)
    finally show ?thesis .
  qed
  have keep: "lookup t0 (dest @ rel) = Some (File c) \<longleftrightarrow> lookup t (dest @ rel) = Some (File c)"
    using parent by (auto simp: mkdir_p_def dest: mkdirs_files mkdirs_keeps)
  from src have l: "lookup t (src @ rel) = map_of t (src @ rel)" by (simp add: lookup_def)
  have after: "lookup t1 (dest @ rel) = (lookup t0 ++ map_of (rev ?m)) (dest @ rel)"
    by (rule copy_entries_success [OF entries])
  show ?thesis
  proof (cases "map_of t (src @ rel)")
    case None
    with mem have "\<forall>x. map_of (rev ?m) (dest @ rel) \<noteq> Some x" by simp
    then have "map_of (rev ?m) (dest @ rel) = None" by (simp only: not_Some_eq)
    with after have "lookup t1 (dest @ rel) = lookup t0 (dest @ rel)" by (simp add: map_add_def)
    with keep None l show ?thesis by simp
  next
    case (Some y)
    with mem have "map_of (rev ?m) (dest @ rel) = Some y" by simp
    with after have "lookup t1 (dest @ rel) = Some y" by (simp add: map_add_def)
    with Some l show ?thesis by simp
  qed
qed

subsection \<open>The shared shape of the file actions\<close>

lemma console_log_fields [simp]:
  "fs (console_log c s w) = fs w" "faults (console_log c s w) = faults w"
  "cwd (console_log c s w) = cwd w" "out (console_log c s w) = out w @ [ConsoleLog c s]"
  by (simp_all add: console_log_def)

lemma react_component_emit:
  assumes "process_cwd w = Normal (cwd w)"
  shows "react_component name w =
     emit False (path_join (cwd w) [''src'', ''components''])
       (path_join (path_join (cwd w) [''src'', ''components'']) [name @ ''.jsx''])
       (trim (componentTemplate name)) []
       (''Component '' @ name @ '' created successfully!'') ''Error creating component:''
       (console_log Blue (''Creating React component: '' @ name) w)"
  unfolding react_component_def assms completion.case
  by (simp only: emit_def Let_def simp_thms if_False if_True
      cong: prod.case_cong completion.case_cong)

lemma express_model_emit:
  assumes "process_cwd w = Normal (cwd w)"
  shows "express_model name w =
     emit True (path_join (cwd w) [''models''])
       (path_join (path_join (cwd w) [''models'']) [name @ ''.js''])
       (trim (modelTemplate name)) (''Model '' @ name @ '' already exists.'')
       (''Model '' @ name @ '' created successfully!'') ''Error creating model:''
       (console_log Blue (''Creating MongoDB model: '' @ name) w)"
  unfolding express_model_def assms completion.case
  by (simp only: emit_def Let_def simp_thms if_False if_True
      cong: prod.case_cong completion.case_cong)

lemma express_controller_emit:
  assumes "process_cwd w = Normal (cwd w)"
  shows "express_controller name w =
     emit True (path_join (cwd w) [''controllers''])
       (path_join (path_join (cwd w) [''controllers'']) [name @ ''.js''])
       (trim (controllerTemplate name)) (''Controller '' @ name @ '' already exists.'')
       (''Controller '' @ name @ '' created successfully!'') ''Error creating controller:''
       (console_log Blue (''Creating MongoDB controller: '' @ name) w)"
  unfolding express_controller_def assms completion.case
  by (simp only: emit_def Let_def simp_thms if_False if_True
      cong: prod.case_cong completion.case_cong)

lemma express_route_emit:
  assumes "process_cwd w = Normal (cwd w)"
  shows "express_route name w =
     emit True (path_join (cwd w) [''routes''])
       (path_join (path_join (cwd w) [''routes'']) [name @ ''.js''])
       (trim (routeTemplate name)) (''Route '' @ name @ '' already exists.'')
       (''Route '' @ name @ '' created successfully!'') ''Error creating route:''
       (console_log Blue (''Creating route for: '' @ name) w)"
  unfolding express_route_def assms completion.case
  by (simp only: emit_def Let_def simp_thms if_False if_True
      cong: prod.case_cong completion.case_cong)

lemma express_middleware_emit:
  assumes "process_cwd w = Normal (cwd w)"
  shows "express_middleware name w =
     emit True (path_join (cwd w) [''middlewares''])
       (path_join (path_join (cwd w) [''middlewares'']) [name @ ''.js''])
       (trim (middlewareTemplate name)) (''Middleware '' @ name @ '' already exists.'')
       (''Middleware '' @ name @ '' created successfully!'') ''Error creating middleware file:''
       (console_log Blue (''Creating middleware file: '' @ name) w)"
  unfolding express_middleware_def assms completion.case
  by (simp only: emit_def Let_def simp_thms if_False if_True
      cong: prod.case_cong completion.case_cong)

lemma emit_eval:
  "emit g d f c em cm l w =
     (case ensure_dir (faults w) d (fs w) of
        (Throw e, t1) \<Rightarrow> (Normal (), console_error l e (w\<lparr>fs := t1\<rparr>))
      | (Normal _, t1) \<Rightarrow>
          if g \<and> exists_node f t1 then (Normal (), console_log Red em (w\<lparr>fs := t1\<rparr>))
          else
            (case write_node (faults w) f c t1 of
               (Throw e, t2) \<Rightarrow> (Normal (), console_error l e (w\<lparr>fs := t2\<rparr>))
             | (Normal _, t2) \<Rightarrow> (Normal (), console_log Green cm (w\<lparr>fs := t2\<rparr>))))"
  by (cases "exists_node d (fs w)")
    (auto simp: emit_def ensure_dir_def world_defs split: prod.splits completion.splits)

lemma emit_verdict:
  assumes "faults w = F" and "fs w = t"
  shows "fst (emit g d f c em cm l w) = Normal () \<and>
   (\<exists>m. out (snd (emit g d f c em cm l w)) = out w @ [m] \<and>
      (case write_thrown g F d f c t of
         Some err \<Rightarrow> m = ConsoleError l err
       | None \<Rightarrow>
           if write_skipped g F d f t then (\<exists>s. m = ConsoleLog Red s)
           else (\<exists>s. m = ConsoleLog Green s)))"
  unfolding assms [symmetric]
  by (auto simp: emit_eval write_thrown_def write_skipped_def console_log_def console_error_def
      split: prod.splits completion.splits)

lemma emit_after_mkdir:
  assumes missing: "\<not> exists_node d (fs w)"
    and mk: "mkdir_p (faults w) d (fs w) = (Normal (), t1)"
  shows "(\<forall>q. prefix q d \<longrightarrow> lookup (fs (snd (emit g d f c em cm l w))) q = Some Dir) \<and>
         (\<forall>t2. (\<not> g \<or> \<not> exists_node f t1) \<and>
               write_node (faults w) f c t1 = (Normal (), t2) \<longrightarrow>
               fs (snd (emit g d f c em cm l w)) = t2 \<and> lookup t2 f = Some (File c) \<and>
               reports_success (emit g d f c em cm l w))"
proof -
  from missing mk have e: "ensure_dir (faults w) d (fs w) = (Normal (), t1)"
    by (simp add: ensure_dir_def)
  have dirs: "lookup t1 q = Some Dir" if "prefix q d" for q
    using mkdir_p_prefixes [OF mk that] .
  obtain r2 t2 where wr: "write_node (faults w) f c t1 = (r2, t2)"
    by (cases "write_node (faults w) f c t1")
  from write_node_result [OF wr] have
    t2: "(r2 = Normal () \<and> f \<noteq> [] \<and> t2 = AList.update f (File c) t1 \<and> lookup t1 f \<noteq> Some Dir)
         \<or> ((\<exists>e. r2 = Throw e) \<and> t2 = t1)"
    by blast
  have after: "lookup t2 q = Some Dir" if "prefix q d" for q
    using t2 dirs [OF that] by (auto simp: lookup_update)
  have a: "lookup (fs (snd (emit g d f c em cm l w))) q = Some Dir" if "prefix q d" for q
    using dirs [OF that] after [OF that] wr
    by (cases r2) (auto simp: emit_eval e console_log_def console_error_def)
  have b: "fs (snd (emit g d f c em cm l w)) = t2 \<and> lookup t2 f = Some (File c) \<and>
      reports_success (emit g d f c em cm l w)"
    if "\<not> g \<or> \<not> exists_node f t1" "r2 = Normal ()"
    using that wr t2
    by (auto simp: emit_eval e console_log_def reports_success_def lookup_update)
  from a b wr show ?thesis by auto
qed

lemma emit_success:
  assumes "reports_success (emit g d f c em cm l w)"
  shows "\<exists>t1. (if exists_node d (fs w) then t1 = fs w
               else mkdir_p (faults w) d (fs w) = (Normal (), t1)) \<and>
              (g \<longrightarrow> \<not> exists_node f t1) \<and>
              write_node (faults w) f c t1 = (Normal (), AList.update f (File c) t1) \<and>
              emit g d f c em cm l w
                = (Normal (), console_log Green cm (w\<lparr>fs := AList.update f (File c) t1\<rparr>))"
proof -
  obtain r1 t1 where m: "(if exists_node d (fs w) then (Normal (), fs w)
      else mkdir_p (faults w) d (fs w)) = (r1, t1)"
    by (cases "if exists_node d (fs w) then (Normal (), fs w) else mkdir_p (faults w) d (fs w)")
  obtain r2 t2 where wr: "write_node (faults w) f c t1 = (r2, t2)"
    by (cases "write_node (faults w) f c t1")
  from assms m wr have ok: "r1 = Normal ()" "g \<longrightarrow> \<not> exists_node f t1" "r2 = Normal ()"
    by (auto simp: emit_def reports_success_def world_defs
        split: completion.splits if_splits)
  from wr ok(3) have t2: "t2 = AList.update f (File c) t1"
    by (auto dest: write_node_result)
  from m wr ok t2 show ?thesis
    by (intro exI [of _ t1]) (auto simp: emit_def world_defs split: if_splits)
qed

lemma emit_existing:
  "exists_node d (fs w) \<Longrightarrow> exists_node f (fs w) \<Longrightarrow>
   emit True d f c em cm l w = (Normal (), console_log Red em w)"
  by (simp add: emit_def world_defs)

lemma emit_success_file:
  assumes "reports_success (emit g d f c em cm l w)"
  shows "lookup (fs (snd (emit g d f c em cm l w))) f = Some (File c)"
proof -
  from emit_success [OF assms] obtain t1 where
    wr: "write_node (faults w) f c t1 = (Normal (), AList.update f (File c) t1)" and
    r: "emit g d f c em cm l w = (Normal (), console_log Green cm (w\<lparr>fs := AList.update f (File c) t1\<rparr>))"
    by blast
  from wr have "f \<noteq> []" by (auto dest: write_node_result)
  with r show ?thesis by (simp add: console_log_def lookup_update)
qed

lemma emit_creates_dir:
  assumes ok: "reports_success (emit g d f c em cm l w)" and missing: "\<not> exists_node d (fs w)"
  shows "\<exists>t1. mkdir_p (faults w) d (fs w) = (Normal (), t1) \<and>
              write_node (faults w) f c t1 = (Normal (), fs (snd (emit g d f c em cm l w))) \<and>
              (\<forall>q. prefix q d \<longrightarrow> lookup (fs (snd (emit g d f c em cm l w))) q = Some Dir) \<and>
              lookup (fs (snd (emit g d f c em cm l w))) f = Some (File c)"
proof -
  from emit_success [OF ok] missing obtain t1 where
    mk: "mkdir_p (faults w) d (fs w) = (Normal (), t1)" and
    wr: "write_node (faults w) f c t1 = (Normal (), AList.update f (File c) t1)" and
    r: "emit g d f c em cm l w
          = (Normal (), console_log Green cm (w\<lparr>fs := AList.update f (File c) t1\<rparr>))"
    by auto
  from wr have f: "f \<noteq> []" "lookup t1 f \<noteq> Some Dir" by (auto dest: write_node_result)
  have "lookup (AList.update f (File c) t1) q = Some Dir" if "prefix q d" for q
  proof -
    from mkdir_p_prefixes [OF mk that] have "lookup t1 q = Some Dir" .
    with f show ?thesis by (auto simp: lookup_update)
  qed
  with mk wr r f show ?thesis by (auto simp: lookup_update)
qed

lemma emit_creates_dir_banner:
  assumes "r = emit g d f c em cm l (console_log Blue b w)"
    and "reports_success r" and "\<not> exists_node d (fs w)"
  shows "\<exists>t1. mkdir_p (faults w) d (fs w) = (Normal (), t1) \<and>
              write_node (faults w) f c t1 = (Normal (), fs (snd r)) \<and>
              (\<forall>q. prefix q d \<longrightarrow> lookup (fs (snd r)) q = Some Dir) \<and>
              lookup (fs (snd r)) f = Some (File c)"
  using emit_creates_dir [of g d f c em cm l "console_log Blue b w"] assms by simp

lemma emit_success_keeps_dir:
  assumes ok: "reports_success (emit True d f c em cm l w)" and q: "lookup (fs w) q = Some Dir"
  shows "lookup (fs (snd (emit True d f c em cm l w))) q = Some Dir"
proof -
  from emit_success [OF ok] obtain t1 where
    dir: "if exists_node d (fs w) then t1 = fs w
          else mkdir_p (faults w) d (fs w) = (Normal (), t1)" and
    absent: "\<not> exists_node f t1" and
    wr: "write_node (faults w) f c t1 = (Normal (), AList.update f (File c) t1)" and
    r: "emit True d f c em cm l w
          = (Normal (), console_log Green cm (w\<lparr>fs := AList.update f (File c) t1\<rparr>))"
    by auto
  from wr have f: "f \<noteq> []" by (auto dest: write_node_result)
  have "lookup t1 q = Some Dir"
  proof (cases "exists_node d (fs w)")
    case True
    with dir q show ?thesis by simp
  next
    case False
    with dir have "mkdir_p (faults w) d (fs w) = (Normal (), t1)" by simp
    from mkdirs_keeps [OF this [unfolded mkdir_p_def] q] show ?thesis .
  qed
  with absent f r show ?thesis by (auto simp: lookup_update exists_node_def)
qed

lemma emit_twice:
  assumes ok: "reports_success (emit True d f c em cm l w)"
  shows "emit True d f c em cm l (console_log Blue b (snd (emit True d f c em cm l w)))
           = (Normal (), console_log Red em (console_log Blue b (snd (emit True d f c em cm l w))))
         \<and> lookup (fs w) f = None"
proof -
  from emit_success [OF ok] obtain t1 where
    dir: "if exists_node d (fs w) then t1 = fs w
          else mkdir_p (faults w) d (fs w) = (Normal (), t1)" and
    absent: "\<not> exists_node f t1" and
    wr: "write_node (faults w) f c t1 = (Normal (), AList.update f (File c) t1)" and
    r: "emit True d f c em cm l w
          = (Normal (), console_log Green cm (w\<lparr>fs := AList.update f (File c) t1\<rparr>))"
    by auto
  from wr have f: "f \<noteq> []" by (auto dest: write_node_result)
  have d1: "exists_node d t1"
  proof (cases "exists_node d (fs w)")
    case True
    with dir show ?thesis by simp
  next
    case False
    with dir have "mkdir_p (faults w) d (fs w) = (Normal (), t1)" by simp
    from mkdir_p_prefixes [OF this, of d] show ?thesis by (simp add: exists_node_def)
  qed
  have before: "lookup (fs w) f = None"
  proof (cases "exists_node d (fs w)")
    case True
    with dir absent show ?thesis by (simp add: exists_node_def)
  next
    case False
    with dir have mk: "mkdir_p (faults w) d (fs w) = (Normal (), t1)" by simp
    show ?thesis
    proof (rule ccontr)
      assume "lookup (fs w) f \<noteq> None"
      then obtain n where "lookup (fs w) f = Some n" by auto
      from mkdirs_keeps [OF mk [unfolded mkdir_p_def] this] absent show False
        by (simp add: exists_node_def)
    qed
  qed
  from d1 f have "exists_node d (AList.update f (File c) t1)"
    "exists_node f (AList.update f (File c) t1)"
    by (auto simp: exists_node_def lookup_update)
  then have "emit True d f c em cm l
      (console_log Blue b (console_log Green cm (w\<lparr>fs := AList.update f (File c) t1\<rparr>)))
    = (Normal (), console_log Red em
      (console_log Blue b (console_log Green cm (w\<lparr>fs := AList.update f (File c) t1\<rparr>))))"
    by (intro emit_existing) simp_all
  with r before show ?thesis by simp
qed

subsection \<open>The project actions\<close>

lemma project_run:
  assumes "project c name w = Some (src, dest)"
  shows "\<exists>b s. run_command c name w =
    (case copy_tree (faults w) src dest (fs w) of
       (Normal _, t) \<Rightarrow> (Normal (), console_log Green s (console_log Blue b (w\<lparr>fs := t\<rparr>)))
     | (Throw err, t) \<Rightarrow>
         (Normal (), console_error ''Error copying template files:'' err
            (console_log Blue b (w\<lparr>fs := t\<rparr>))))"
proof -
  from assms have cw: "process_cwd w = Normal (cwd w)" by (rule project_cwd)
  with assms have p: "project_in (module_dirname w) (cwd w) c name = Some (src, dest)"
    by (simp add: project_def)
  show ?thesis
  proof (cases c)
    case Express
    with p show ?thesis
      by (auto simp: express_def cw world_defs Let_def split: prod.splits completion.splits)
  next
    case React
    with p show ?thesis
      by (auto simp: react_def cw world_defs Let_def split: prod.splits completion.splits)
  qed (use p in simp_all)
qed

lemma project_success:
  assumes "project c name w = Some (src, dest)" and "reports_success (run_command c name w)"
  shows "copy_tree (faults w) src dest (fs w) = (Normal (), fs (snd (run_command c name w)))"
proof -
  from project_run [OF assms(1)] obtain b s where
    r: "run_command c name w =
    (case copy_tree (faults w) src dest (fs w) of
       (Normal _, t) \<Rightarrow> (Normal (), console_log Green s (console_log Blue b (w\<lparr>fs := t\<rparr>)))
     | (Throw err, t) \<Rightarrow>
         (Normal (), console_error ''Error copying template files:'' err
            (console_log Blue b (w\<lparr>fs := t\<rparr>))))" by blast
  obtain res t where ct: "copy_tree (faults w) src dest (fs w) = (res, t)"
    by (cases "copy_tree (faults w) src dest (fs w)")
  show ?thesis
  proof (cases res)
    case (Normal u)
    with r ct show ?thesis by simp
  next
    case (Throw err)
    with r ct assms(2) show ?thesis
      by (simp add: reports_success_def console_error_def console_log_def)
  qed
qed

lemma existing_shop_run:
  "express ''shop'' existing_shop =
     (Normal (),
      existing_shop\<lparr>fs := fs existing_shop @
          [([''home'', ''app'', ''shop'', ''index.js''], File express_index_js)],
        out := [ConsoleLog Blue ''Creating Express project: shop'',
                ConsoleLog Green ''Express project created successfully!'']\<rparr>)"
  by (simp add: existing_shop_def installed_cli_def express_def world_defs fs_defs copy_defs
      Let_def)

lemma installed_cli_run:
  "express ''shop'' installed_cli =
     (Normal (),
      installed_cli\<lparr>fs := fs installed_cli @
          [([''home'', ''app'', ''shop''], Dir),
           ([''home'', ''app'', ''shop'', ''index.js''], File express_index_js)],
        out := [ConsoleLog Blue ''Creating Express project: shop'',
                ConsoleLog Green ''Express project created successfully!'']\<rparr>)"
  by (simp add: installed_cli_def express_def world_defs fs_defs copy_defs Let_def)

lemma missing_template_copy:
  "copy_tree (faults installed_cli) [''opt'', ''mern-cli'', ''templates'', ''react'']
     [''home'', ''app'', ''shop''] (fs installed_cli)
   = (Throw (SystemError ENOENT [''opt'', ''mern-cli'', ''templates'', ''react'']),
      fs installed_cli)"
  by (simp add: installed_cli_def fs_defs copy_defs)

lemma full_disk_copy:
  "copy_tree (faults full_disk) [''opt'', ''mern-cli'', ''templates'', ''express'']
     [''home'', ''app'', ''shop''] (fs full_disk)
   = (Throw (SystemError ENOSPC [''home'', ''app'', ''shop'', ''index.js'']),
      fs installed_cli @ [([''home'', ''app'', ''shop''], Dir)])"
  by (simp add: full_disk_def installed_cli_def fs_defs copy_defs)

subsection \<open>Trimming keeps the lines of a template\<close>

lemma dropWhile_keeps_block:
  "l \<noteq> [] \<Longrightarrow> \<not> P (hd l) \<Longrightarrow> \<exists>ps'. dropWhile P (ps @ l @ ss) = ps' @ l @ ss"
proof (induction ps)
  case Nil
  then show ?case by (cases l) (auto intro: exI [of _ "[]"])
next
  case (Cons a ps)
  then show ?case by (cases "P a") (auto intro: exI [of _ "a # ps"])
qed

lemma sublist_trim:
  assumes "sublist l s" and "l \<noteq> []" and "\<not> is_white_space (hd l)" and "\<not> is_white_space (last l)"
  shows "sublist l (trim s)"
proof -
  from assms(1) obtain ps ss where s: "s = ps @ l @ ss" by (auto simp: sublist_def)
  from dropWhile_keeps_block [where l = l and P = is_white_space and ps = ps and ss = ss] assms(2,3)
  obtain ps1 where
    front: "dropWhile is_white_space (ps @ l @ ss) = ps1 @ l @ ss" by blast
  from assms(2,4) have "rev l \<noteq> []" "\<not> is_white_space (hd (rev l))" by (simp_all add: hd_rev)
  from dropWhile_keeps_block [where l = "rev l" and P = is_white_space and ps = "rev ss"
      and ss = "rev ps1"] this
  obtain ss1 where
    rear: "dropWhile is_white_space (rev ss @ rev l @ rev ps1) = ss1 @ rev l @ rev ps1" by blast
  from s front rear have "trim s = ps1 @ l @ rev ss1" by (simp add: trim_def)
  then show ?thesis by (auto simp: sublist_def)
qed

lemma sublist_unlines: "l \<in> set ls \<Longrightarrow> sublist l (unlines ls)"
proof (induction ls)
  case Nil
  then show ?case by simp
next
  case (Cons a ls)
  show ?case
  proof (cases "l = a")
    case True
    have "unlines (a # ls) = [] @ a @ (CHR 0x0A # unlines ls)" by (simp add: unlines_def)
    with True show ?thesis unfolding sublist_def by blast
  next
    case False
    with Cons obtain ps ss where "unlines ls = ps @ l @ ss" by (auto simp: sublist_def)
    then have "unlines (a # ls) = (a @ CHR 0x0A # ps) @ l @ ss" by (simp add: unlines_def)
    then show ?thesis unfolding sublist_def by blast
  qed
qed

lemma line_in_trimmed:
  "l \<in> set ls \<Longrightarrow> l \<noteq> [] \<Longrightarrow> \<not> is_white_space (hd l) \<Longrightarrow> \<not> is_white_space (last l) \<Longrightarrow>
   sublist l (trim (unlines ls))"
  by (rule sublist_trim [OF sublist_unlines])

subsection \<open>Existing files\<close>

text \<open>
  Claim C1. The claim is that every file command checks for the destination file and
  leaves an existing one alone. \<open>react_component\<close> has no such check: run on a project
  whose \<^verbatim>\<open>src/components/Header.jsx\<close> was written by hand, it replaces the file's
  content by the template and reports success; nothing says that the file was there.
\<close>

theorem react_component_overwrites_existing_file:
  "lookup (fs edited_component) [''home'', ''app'', ''src'', ''components'', ''Header.jsx'']
     = Some (File ''export default function Header() { return null; }'') \<and>
   existsSync [''home'', ''app'', ''src'', ''components'', ''Header.jsx''] edited_component \<and>
   lookup (fs (snd (run_command ReactComponent ''Header'' edited_component)))
     [''home'', ''app'', ''src'', ''components'', ''Header.jsx'']
     = Some (File (trim (componentTemplate ''Header''))) \<and>
   trim (componentTemplate ''Header'') \<noteq> ''export default function Header() { return null; }'' \<and>
   out (snd (run_command ReactComponent ''Header'' edited_component))
     = [ConsoleLog Blue ''Creating React component: Header'',
        ConsoleLog Green ''Component Header created successfully!'']"
proof -
  have "hd (trim (componentTemplate ''Header'')) = CHR ''i''"
    by (simp add: componentTemplate_def unlines_def trim_def is_white_space_def)
  then have "trim (componentTemplate ''Header'')
      \<noteq> ''export default function Header() { return null; }''"
    by auto
  then show ?thesis
    by (simp add: edited_component_def react_component_def world_defs fs_defs Let_def)
qed

text \<open>The four other file commands do check: when the directory and the file exist,
  they print that the file exists and change nothing.\<close>

lemma guarded_commands_keep_existing_file:
  assumes "c \<in> {ExpressModel, ExpressController, ExpressRoute, ExpressMiddleware}"
    and "generated c name w = Some (dir, file, content)"
    and "existsSync dir w" and "existsSync file w"
  shows "fs (snd (run_command c name w)) = fs w \<and>
         (\<exists>b m. out (snd (run_command c name w)) = out w @ [ConsoleLog Blue b, ConsoleLog Red m])"
proof -
  from assms(2) have cw: "process_cwd w = Normal (cwd w)" by (rule generated_cwd)
  with assms(2) have "generated_in (cwd w) c name = Some (dir, file, content)"
    by (simp add: generated_def)
  with assms(1,3,4) show ?thesis
    by (auto simp: express_model_emit [OF cw] express_controller_emit [OF cw]
        express_route_emit [OF cw] express_middleware_emit [OF cw] emit_existing
        existsSync_def Let_def)
qed

text \<open>
  Claim C2. Whenever a first run of \<open>express_route\<close> creates the file (it reports
  success), the file was not there before, it now holds the trimmed route template for
  the name, and a second run in the state the first one left prints the two lines
  "Creating route for" and "already exists" and leaves the file system as it was.
\<close>

theorem express_route_twice:
  assumes "reports_success (express_route name w)"
  shows "let routeFile = path_join (path_join (cwd w) [''routes'']) [name @ ''.js''];
             w1 = snd (express_route name w);
             w2 = snd (express_route name w1)
         in lookup (fs w) routeFile = None \<and>
            lookup (fs w1) routeFile = Some (File (trim (routeTemplate name))) \<and>
            fs w2 = fs w1 \<and>
            out w2 = out w1 @ [ConsoleLog Blue (''Creating route for: '' @ name),
                               ConsoleLog Red (''Route '' @ name @ '' already exists.'')]"
proof -
  let ?w0 = "console_log Blue (''Creating route for: '' @ name) w"
  let ?d = "path_join (cwd w) [''routes'']"
  let ?f = "path_join ?d [name @ ''.js'']"
  let ?e = "emit True ?d ?f (trim (routeTemplate name)) (''Route '' @ name @ '' already exists.'')
      (''Route '' @ name @ '' created successfully!'') ''Error creating route:''"
  from success_needs_cwd [of ExpressRoute name w] assms
  have cw: "process_cwd w = Normal (cwd w)" by simp
  then have here: "lookup (fs ?w0) (cwd w) = Some Dir"
    by (simp add: process_cwd_def split: if_splits)
  have first: "express_route name w = ?e ?w0" using cw by (rule express_route_emit)
  with assms have ok: "reports_success (?e ?w0)" by simp
  from emit_success [OF ok] have cwd1: "cwd (snd (?e ?w0)) = cwd w"
    by (auto simp: console_log_def)
  from emit_success_keeps_dir [OF ok here] cwd1
  have cw1: "process_cwd (snd (?e ?w0)) = Normal (cwd (snd (?e ?w0)))"
    by (simp add: process_cwd_def)
  have second: "express_route name (snd (?e ?w0))
      = ?e (console_log Blue (''Creating route for: '' @ name) (snd (?e ?w0)))"
    unfolding express_route_emit [OF cw1] cwd1 ..
  from emit_twice [OF ok] emit_success_file [OF ok] show ?thesis
    unfolding Let_def second first by simp
qed

theorem express_route_twice_witness:
  "reports_success (express_route ''Item'' fresh_project) \<and>
   lookup (fs fresh_project) [''home'', ''app'', ''routes'', ''Item.js''] = None \<and>
   lookup (fs (snd (express_route ''Item'' fresh_project)))
     [''home'', ''app'', ''routes'', ''Item.js''] = Some (File (trim (routeTemplate ''Item''))) \<and>
   fs (snd (express_route ''Item'' (snd (express_route ''Item'' fresh_project))))
     = fs (snd (express_route ''Item'' fresh_project)) \<and>
   out (snd (express_route ''Item'' (snd (express_route ''Item'' fresh_project))))
     = [ConsoleLog Blue ''Creating route for: Item'',
        ConsoleLog Green ''Route Item created successfully!'',
        ConsoleLog Blue ''Creating route for: Item'',
        ConsoleLog Red ''Route Item already exists.'']"
proof -
  have s: "reports_success (express_route ''Item'' fresh_project)"
    by (simp add: fresh_project_def express_route_def reports_success_def world_defs fs_defs
        Let_def)
  have p: "path_join (path_join (cwd fresh_project) [''routes'']) [''Item'' @ ''.js'']
      = [''home'', ''app'', ''routes'', ''Item.js'']"
    by (simp add: fresh_project_def path_join_def)
  have o: "out (snd (express_route ''Item'' fresh_project))
      = [ConsoleLog Blue ''Creating route for: Item'',
         ConsoleLog Green ''Route Item created successfully!'']"
    by (simp add: fresh_project_def express_route_def world_defs fs_defs Let_def)
  from express_route_twice [OF s] s show ?thesis
    unfolding Let_def p o by simp
qed

subsection \<open>Generated content\<close>

text \<open>
  Claim C3. Whenever \<open>express_model\<close> creates the file \<^verbatim>\<open>models/N.js\<close>, its content is
  the trimmed model template for \<open>N\<close>, which contains the declaration of the schema
  variable \<^verbatim>\<open>NSchema\<close>, the declaration of the model \<open>N\<close> built from the name and
  that schema, and the default export of \<open>N\<close>.
\<close>

theorem express_model_interpolates_name:
  assumes "reports_success (express_model name w)"
  shows "\<exists>content.
     lookup (fs (snd (express_model name w)))
       (path_join (path_join (cwd w) [''models'']) [name @ ''.js'']) = Some (File content) \<and>
     content = trim (modelTemplate name) \<and>
     sublist (''const '' @ name @ ''Schema = new mongoose.Schema({'') content \<and>
     sublist (''const '' @ name @ '' = mongoose.model('' @ [CHR 0x27] @ name @ [CHR 0x27]
               @ '', '' @ name @ ''Schema);'') content \<and>
     sublist (''export default '' @ name @ '';'') content"
proof -
  have written: "lookup (fs (snd (express_model name w)))
       (path_join (path_join (cwd w) [''models'']) [name @ ''.js''])
       = Some (File (trim (modelTemplate name)))"
    using assms
    unfolding express_model_emit [OF success_needs_cwd [of ExpressModel, simplified, OF assms]]
    by (rule emit_success_file)
  have l1: "sublist (''const '' @ name @ ''Schema = new mongoose.Schema({'') (trim (modelTemplate name))"
    unfolding modelTemplate_def by (rule line_in_trimmed) (simp_all add: is_white_space_def)
  have l2: "sublist (''const '' @ name @ '' = mongoose.model('' @ [CHR 0x27] @ name @ [CHR 0x27]
               @ '', '' @ name @ ''Schema);'') (trim (modelTemplate name))"
    unfolding modelTemplate_def by (rule line_in_trimmed) (simp_all add: is_white_space_def)
  have l3: "sublist (''export default '' @ name @ '';'') (trim (modelTemplate name))"
    unfolding modelTemplate_def by (rule line_in_trimmed) (simp_all add: is_white_space_def)
  from written l1 l2 l3 show ?thesis by blast
qed

theorem express_model_interpolates_name_witness:
  "reports_success (express_model ''Widget'' fresh_project) \<and>
   (\<exists>content.
      lookup (fs (snd (express_model ''Widget'' fresh_project)))
        [''home'', ''app'', ''models'', ''Widget.js''] = Some (File content) \<and>
      sublist ''const WidgetSchema = new mongoose.Schema({'' content \<and>
      sublist (''const Widget = mongoose.model('' @ [CHR 0x27] @ ''Widget'' @ [CHR 0x27]
                 @ '', WidgetSchema);'') content \<and>
      sublist ''export default Widget;'' content)"
proof -
  have s: "reports_success (express_model ''Widget'' fresh_project)"
    by (simp add: fresh_project_def express_model_def reports_success_def world_defs fs_defs
        Let_def)
  have p: "path_join (path_join (cwd fresh_project) [''models'']) [''Widget'' @ ''.js'']
      = [''home'', ''app'', ''models'', ''Widget.js'']"
    by (simp add: fresh_project_def path_join_def)
  from express_model_interpolates_name [OF s] s show ?thesis
    unfolding p by simp
qed

text \<open>
  Claim C9. Whenever \<open>express_controller\<close> creates files for two names, in any two
  states, both files hold the same constant text; the template does not depend on the
  name, which only decides the path.
\<close>

theorem controller_content_constant:
  assumes "reports_success (express_controller name1 w1)"
    and "reports_success (express_controller name2 w2)"
  shows "lookup (fs (snd (express_controller name1 w1)))
           (path_join (path_join (cwd w1) [''controllers'']) [name1 @ ''.js''])
           = Some (File ''//Your Code here'') \<and>
         lookup (fs (snd (express_controller name2 w2)))
           (path_join (path_join (cwd w2) [''controllers'']) [name2 @ ''.js''])
           = Some (File ''//Your Code here'') \<and>
         controllerTemplate name1 = controllerTemplate name2"
proof -
  have t: "trim (controllerTemplate n) = ''//Your Code here''" for n
    by (simp add: controllerTemplate_def trim_def is_white_space_def)
  have f1: "lookup (fs (snd (express_controller name1 w1)))
           (path_join (path_join (cwd w1) [''controllers'']) [name1 @ ''.js''])
           = Some (File (trim (controllerTemplate name1)))"
    using assms(1)
    unfolding express_controller_emit
      [OF success_needs_cwd [of ExpressController, simplified, OF assms(1)]]
    by (rule emit_success_file)
  have f2: "lookup (fs (snd (express_controller name2 w2)))
           (path_join (path_join (cwd w2) [''controllers'']) [name2 @ ''.js''])
           = Some (File (trim (controllerTemplate name2)))"
    using assms(2)
    unfolding express_controller_emit
      [OF success_needs_cwd [of ExpressController, simplified, OF assms(2)]]
    by (rule emit_success_file)
  from f1 f2 show ?thesis by (simp add: t) (simp add: controllerTemplate_def)
qed

theorem controller_content_constant_witness:
  "reports_success (express_controller ''User'' fresh_project) \<and>
   reports_success (express_controller ''Order'' fresh_project) \<and>
   lookup (fs (snd (express_controller ''User'' fresh_project)))
     [''home'', ''app'', ''controllers'', ''User.js''] = Some (File ''//Your Code here'') \<and>
   lookup (fs (snd (express_controller ''Order'' fresh_project)))
     [''home'', ''app'', ''controllers'', ''Order.js''] = Some (File ''//Your Code here'')"
proof -
  have s1: "reports_success (express_controller ''User'' fresh_project)"
    by (simp add: fresh_project_def express_controller_def reports_success_def world_defs fs_defs
        Let_def)
  have s2: "reports_success (express_controller ''Order'' fresh_project)"
    by (simp add: fresh_project_def express_controller_def reports_success_def world_defs fs_defs
        Let_def)
  have p: "path_join (path_join (cwd fresh_project) [''controllers'']) [''User'' @ ''.js'']
      = [''home'', ''app'', ''controllers'', ''User.js'']"
    "path_join (path_join (cwd fresh_project) [''controllers'']) [''Order'' @ ''.js'']
      = [''home'', ''app'', ''controllers'', ''Order.js'']"
    by (simp_all add: fresh_project_def path_join_def)
  from controller_content_constant [OF s1 s2] s1 s2 show ?thesis
    unfolding p by simp
qed

subsection \<open>Missing directories\<close>

text \<open>
  Claim C5. For each of the five file commands: when the target directory does not
  exist, the command creates it with \<^verbatim>\<open>mkdirSync(dir, { recursive: true })\<close>; when that
  call succeeds, the directory and every ancestor of it is a directory after the run,
  whatever happens to the file. The file is written into the file system that the
  call left: when that write succeeds (and, for the four guarded commands, the file
  is not there yet), the run ends in exactly the file system the write produced, the
  file holds the generated content, and the run reports success. The five commands
  are run on a project without any of the directories, \<^verbatim>\<open>react-component Header\<close>
  without \<^verbatim>\<open>src\<close> among them.
\<close>

theorem file_commands_create_missing_directory:
  assumes "generated c name w = Some (dir, file, content)"
    and "\<not> existsSync dir w"
    and "mkdir_p (faults w) dir (fs w) = (Normal (), t1)"
  shows "(\<forall>q. prefix q dir \<longrightarrow> lookup (fs (snd (run_command c name w))) q = Some Dir) \<and>
         (\<forall>t2. (c = ReactComponent \<or> \<not> exists_node file t1) \<and>
               write_node (faults w) file content t1 = (Normal (), t2) \<longrightarrow>
               fs (snd (run_command c name w)) = t2 \<and>
               lookup t2 file = Some (File content) \<and>
               reports_success (run_command c name w))"
proof -
  from assms(1) have cw: "process_cwd w = Normal (cwd w)" by (rule generated_cwd)
  with assms(1) have g: "generated_in (cwd w) c name = Some (dir, file, content)"
    by (simp add: generated_def)
  from assms(2) have missing: "\<not> exists_node dir (fs w)" by (simp add: existsSync_def)
  have "\<exists>em cm l b. run_command c name w
      = emit (c \<noteq> ReactComponent) dir file content em cm l (console_log Blue b w)"
  proof (cases c)
    case ReactComponent
    with g show ?thesis by (simp add: react_component_emit [OF cw] Let_def) blast
  next
    case ExpressModel
    with g show ?thesis by (simp add: express_model_emit [OF cw] Let_def) blast
  next
    case ExpressController
    with g show ?thesis by (simp add: express_controller_emit [OF cw] Let_def) blast
  next
    case ExpressRoute
    with g show ?thesis by (simp add: express_route_emit [OF cw] Let_def) blast
  next
    case ExpressMiddleware
    with g show ?thesis by (simp add: express_middleware_emit [OF cw] Let_def) blast
  qed (use g in simp_all)
  then obtain em cm l b where r: "run_command c name w
      = emit (c \<noteq> ReactComponent) dir file content em cm l (console_log Blue b w)" by blast
  from emit_after_mkdir [where d = dir and w = "console_log Blue b w" and ?t1.0 = t1
      and g = "c \<noteq> ReactComponent" and f = "file" and c = content and em = em and cm = cm
      and l = l] missing assms(3)
  show ?thesis unfolding r by simp
qed

theorem file_commands_create_missing_directory_witness:
  "\<not> existsSync [''home'', ''app'', ''src'', ''components''] fresh_project \<and>
   reports_success (run_command ReactComponent ''Header'' fresh_project) \<and>
   lookup (fs (snd (run_command ReactComponent ''Header'' fresh_project)))
     [''home'', ''app'', ''src''] = Some Dir \<and>
   lookup (fs (snd (run_command ReactComponent ''Header'' fresh_project)))
     [''home'', ''app'', ''src'', ''components''] = Some Dir \<and>
   lookup (fs (snd (run_command ReactComponent ''Header'' fresh_project)))
     [''home'', ''app'', ''src'', ''components'', ''Header.jsx'']
     = Some (File (trim (componentTemplate ''Header''))) \<and>
   sublist ''const Header = () => {'' (trim (componentTemplate ''Header'')) \<and>
   \<not> existsSync [''home'', ''app'', ''models''] fresh_project \<and>
   reports_success (run_command ExpressModel ''Header'' fresh_project) \<and>
   lookup (fs (snd (run_command ExpressModel ''Header'' fresh_project)))
     [''home'', ''app'', ''models''] = Some Dir \<and>
   lookup (fs (snd (run_command ExpressModel ''Header'' fresh_project)))
     [''home'', ''app'', ''models'', ''Header.js''] = Some (File (trim (modelTemplate ''Header''))) \<and>
   \<not> existsSync [''home'', ''app'', ''controllers''] fresh_project \<and>
   reports_success (run_command ExpressController ''Header'' fresh_project) \<and>
   lookup (fs (snd (run_command ExpressController ''Header'' fresh_project)))
     [''home'', ''app'', ''controllers''] = Some Dir \<and>
   lookup (fs (snd (run_command ExpressController ''Header'' fresh_project)))
     [''home'', ''app'', ''controllers'', ''Header.js''] = Some (File (trim (controllerTemplate ''Header''))) \<and>
   \<not> existsSync [''home'', ''app'', ''routes''] fresh_project \<and>
   reports_success (run_command ExpressRoute ''Header'' fresh_project) \<and>
   lookup (fs (snd (run_command ExpressRoute ''Header'' fresh_project)))
     [''home'', ''app'', ''routes''] = Some Dir \<and>
   lookup (fs (snd (run_command ExpressRoute ''Header'' fresh_project)))
     [''home'', ''app'', ''routes'', ''Header.js''] = Some (File (trim (routeTemplate ''Header''))) \<and>
   \<not> existsSync [''home'', ''app'', ''middlewares''] fresh_project \<and>
   reports_success (run_command ExpressMiddleware ''Header'' fresh_project) \<and>
   lookup (fs (snd (run_command ExpressMiddleware ''Header'' fresh_project)))
     [''home'', ''app'', ''middlewares''] = Some Dir \<and>
   lookup (fs (snd (run_command ExpressMiddleware ''Header'' fresh_project)))
     [''home'', ''app'', ''middlewares'', ''Header.js''] = Some (File (trim (middlewareTemplate ''Header'')))"
proof -
  have step: "reports_success (run_command c ''Header'' fresh_project) \<and>
      (\<forall>q. prefix q d \<longrightarrow> lookup (fs (snd (run_command c ''Header'' fresh_project))) q = Some Dir) \<and>
      lookup (fs (snd (run_command c ''Header'' fresh_project))) f = Some (File x)"
    if "generated c ''Header'' fresh_project = Some (d, f, x)"
      and "\<not> existsSync d fresh_project"
      and "mkdir_p (faults fresh_project) d (fs fresh_project) = (Normal (), ta)"
      and "\<not> exists_node f ta"
      and "write_node (faults fresh_project) f x ta = (Normal (), tb)"
    for c d f x ta tb
    using file_commands_create_missing_directory [OF that(1,2,3)] that(4,5) by auto
  have rc: "reports_success (run_command ReactComponent ''Header'' fresh_project) \<and>
      (\<forall>q. prefix q [''home'', ''app'', ''src'', ''components''] \<longrightarrow>
         lookup (fs (snd (run_command ReactComponent ''Header'' fresh_project))) q = Some Dir) \<and>
      lookup (fs (snd (run_command ReactComponent ''Header'' fresh_project)))
        [''home'', ''app'', ''src'', ''components'', ''Header.jsx'']
        = Some (File (trim (componentTemplate ''Header'')))"
    by (rule step [where ta = "fs fresh_project @ [([''home'', ''app'', ''src''], Dir),
          ([''home'', ''app'', ''src'', ''components''], Dir)]"])
      (simp_all add: fresh_project_def fs_defs existsSync_def)
  have em: "reports_success (run_command ExpressModel ''Header'' fresh_project) \<and>
      (\<forall>q. prefix q [''home'', ''app'', ''models''] \<longrightarrow>
         lookup (fs (snd (run_command ExpressModel ''Header'' fresh_project))) q = Some Dir) \<and>
      lookup (fs (snd (run_command ExpressModel ''Header'' fresh_project)))
        [''home'', ''app'', ''models'', ''Header.js'']
        = Some (File (trim (modelTemplate ''Header'')))"
    by (rule step [where ta = "fs fresh_project @ [([''home'', ''app'', ''models''], Dir)]"])
      (simp_all add: fresh_project_def fs_defs existsSync_def)
  have ec: "reports_success (run_command ExpressController ''Header'' fresh_project) \<and>
      (\<forall>q. prefix q [''home'', ''app'', ''controllers''] \<longrightarrow>
         lookup (fs (snd (run_command ExpressController ''Header'' fresh_project))) q = Some Dir) \<and>
      lookup (fs (snd (run_command ExpressController ''Header'' fresh_project)))
        [''home'', ''app'', ''controllers'', ''Header.js'']
        = Some (File (trim (controllerTemplate ''Header'')))"
    by (rule step [where ta = "fs fresh_project @ [([''home'', ''app'', ''controllers''], Dir)]"])
      (simp_all add: fresh_project_def fs_defs existsSync_def)
  have er: "reports_success (run_command ExpressRoute ''Header'' fresh_project) \<and>
      (\<forall>q. prefix q [''home'', ''app'', ''routes''] \<longrightarrow>
         lookup (fs (snd (run_command ExpressRoute ''Header'' fresh_project))) q = Some Dir) \<and>
      lookup (fs (snd (run_command ExpressRoute ''Header'' fresh_project)))
        [''home'', ''app'', ''routes'', ''Header.js'']
        = Some (File (trim (routeTemplate ''Header'')))"
    by (rule step [where ta = "fs fresh_project @ [([''home'', ''app'', ''routes''], Dir)]"])
      (simp_all add: fresh_project_def fs_defs existsSync_def)
  have ew: "reports_success (run_command ExpressMiddleware ''Header'' fresh_project) \<and>
      (\<forall>q. prefix q [''home'', ''app'', ''middlewares''] \<longrightarrow>
         lookup (fs (snd (run_command ExpressMiddleware ''Header'' fresh_project))) q = Some Dir) \<and>
      lookup (fs (snd (run_command ExpressMiddleware ''Header'' fresh_project)))
        [''home'', ''app'', ''middlewares'', ''Header.js'']
        = Some (File (trim (middlewareTemplate ''Header'')))"
    by (rule step [where ta = "fs fresh_project @ [([''home'', ''app'', ''middlewares''], Dir)]"])
      (simp_all add: fresh_project_def fs_defs existsSync_def)
  have g: "generated ReactComponent ''Header'' fresh_project
        = Some ([''home'', ''app'', ''src'', ''components''],
                [''home'', ''app'', ''src'', ''components'', ''Header.jsx''],
                trim (componentTemplate ''Header''))"
      "generated ExpressModel ''Header'' fresh_project
        = Some ([''home'', ''app'', ''models''], [''home'', ''app'', ''models'', ''Header.js''],
                trim (modelTemplate ''Header''))"
      "generated ExpressController ''Header'' fresh_project
        = Some ([''home'', ''app'', ''controllers''],
                [''home'', ''app'', ''controllers'', ''Header.js''],
                trim (controllerTemplate ''Header''))"
      "generated ExpressRoute ''Header'' fresh_project
        = Some ([''home'', ''app'', ''routes''], [''home'', ''app'', ''routes'', ''Header.js''],
                trim (routeTemplate ''Header''))"
      "generated ExpressMiddleware ''Header'' fresh_project
        = Some ([''home'', ''app'', ''middlewares''],
                [''home'', ''app'', ''middlewares'', ''Header.js''],
                trim (middlewareTemplate ''Header''))"
    by (simp_all add: fresh_project_def fs_defs)
  have m: "\<not> existsSync [''home'', ''app'', ''src'', ''components''] fresh_project"
      "\<not> existsSync [''home'', ''app'', ''models''] fresh_project"
      "\<not> existsSync [''home'', ''app'', ''controllers''] fresh_project"
      "\<not> existsSync [''home'', ''app'', ''routes''] fresh_project"
      "\<not> existsSync [''home'', ''app'', ''middlewares''] fresh_project"
    by (simp_all add: fresh_project_def fs_defs existsSync_def)
  have l: "sublist ''const Header = () => {'' (trim (componentTemplate ''Header''))"
    unfolding componentTemplate_def
    by (rule sublist_trim [OF sublist_unlines]) (simp_all add: is_white_space_def)
  from rc em ec er ew g m l show ?thesis by (simp add: prefix_def)
qed

subsection \<open>Project generation\<close>

text \<open>
  Claim C4, as stated: after a successful run of a project command the files below the
  destination are exactly the files of the template. It fails where the destination
  already holds a file: the copy merges into an existing directory, so after
  \<^verbatim>\<open>express shop\<close> the directory \<^verbatim>\<open>shop\<close> holds its old \<^verbatim>\<open>notes.txt\<close> beside the
  template's \<^verbatim>\<open>index.js\<close>.
\<close>

theorem project_copy_keeps_other_files:
  "reports_success (run_command Express ''shop'' existing_shop) \<and>
   files_under (fs (snd (run_command Express ''shop'' existing_shop))) [''home'', ''app'', ''shop'']
     \<noteq> files_under (fs existing_shop) [''opt'', ''mern-cli'', ''templates'', ''express'']"
proof -
  have s: "reports_success (run_command Express ''shop'' existing_shop)"
    by (simp add: existing_shop_run reports_success_def)
  have "([''notes.txt''], ''deploy on Friday'')
      \<in> files_under (fs (snd (run_command Express ''shop'' existing_shop))) [''home'', ''app'', ''shop'']"
    by (simp add: existing_shop_run files_under_def)
      (simp add: existing_shop_def installed_cli_def lookup_def)
  moreover have "([''notes.txt''], ''deploy on Friday'')
      \<notin> files_under (fs existing_shop) [''opt'', ''mern-cli'', ''templates'', ''express'']"
    by (simp add: files_under_def existing_shop_def installed_cli_def lookup_def)
  ultimately show ?thesis using s by blast
qed

text \<open>
  Claim C4, amended. After a successful run of a project command every file of the
  template is below the destination at the same relative path with the same content,
  and every file below the destination is such a copy or was there before the run with
  that content; so the two sets are equal when the destination held no file before.
\<close>

theorem project_copy_files:
  assumes "project c name w = Some (templateDir, destinationDir)"
    and "reports_success (run_command c name w)"
  shows "files_under (fs w) templateDir
           \<subseteq> files_under (fs (snd (run_command c name w))) destinationDir \<and>
         files_under (fs (snd (run_command c name w))) destinationDir
           \<subseteq> files_under (fs w) templateDir \<union> files_under (fs w) destinationDir \<and>
         (files_under (fs w) destinationDir = {} \<longrightarrow>
            files_under (fs (snd (run_command c name w))) destinationDir
              = files_under (fs w) templateDir)"
proof -
  note ct = copy_tree_success [OF project_success [OF assms]]
  have a: "files_under (fs w) templateDir
      \<subseteq> files_under (fs (snd (run_command c name w))) destinationDir"
    by (auto simp: files_under_def ct)
  have b: "files_under (fs (snd (run_command c name w))) destinationDir
      \<subseteq> files_under (fs w) templateDir \<union> files_under (fs w) destinationDir"
    by (auto simp: files_under_def ct)
  from a b show ?thesis by blast
qed

theorem project_copy_files_witness:
  "project Express ''shop'' installed_cli
     = Some ([''opt'', ''mern-cli'', ''templates'', ''express''], [''home'', ''app'', ''shop'']) \<and>
   reports_success (run_command Express ''shop'' installed_cli) \<and>
   files_under (fs installed_cli) [''home'', ''app'', ''shop''] = {} \<and>
   files_under (fs (snd (run_command Express ''shop'' installed_cli))) [''home'', ''app'', ''shop'']
     = files_under (fs installed_cli) [''opt'', ''mern-cli'', ''templates'', ''express''] \<and>
   ([''index.js''], express_index_js)
     \<in> files_under (fs (snd (run_command Express ''shop'' installed_cli))) [''home'', ''app'', ''shop'']"
proof -
  have p: "project Express ''shop'' installed_cli
     = Some ([''opt'', ''mern-cli'', ''templates'', ''express''], [''home'', ''app'', ''shop''])"
    by (simp add: installed_cli_def fs_defs)
  have s: "reports_success (run_command Express ''shop'' installed_cli)"
    by (simp add: installed_cli_run reports_success_def)
  have e: "files_under (fs installed_cli) [''home'', ''app'', ''shop''] = {}"
    by (simp add: files_under_def installed_cli_def lookup_def)
  have i: "([''index.js''], express_index_js)
     \<in> files_under (fs (snd (run_command Express ''shop'' installed_cli))) [''home'', ''app'', ''shop'']"
    by (simp add: installed_cli_run files_under_def) (simp add: installed_cli_def lookup_def)
  from project_copy_files [OF p s] p s e i show ?thesis by blast
qed

text \<open>
  Claim C6. When the recursive copy of a project command throws, the action still
  returns normally, prints the error after its opening line, and leaves the file
  system as the failed copy left it: nothing is undone. A missing template directory
  makes the copy throw \<^verbatim>\<open>ENOENT\<close> before it changes anything, so no destination
  directory appears. The witness shows both: \<^verbatim>\<open>react shop\<close> without a React template,
  and \<^verbatim>\<open>express shop\<close> on a full disk, where the directory \<^verbatim>\<open>shop\<close> created before
  the failure stays.
\<close>

theorem project_copy_failure_caught:
  assumes "project c name w = Some (templateDir, destinationDir)"
    and "copy_tree (faults w) templateDir destinationDir (fs w) = (Throw err, t)"
  shows "fst (run_command c name w) = Normal () \<and>
         fs (snd (run_command c name w)) = t \<and>
         (\<exists>b. out (snd (run_command c name w))
            = out w @ [ConsoleLog Blue b, ConsoleError ''Error copying template files:'' err]) \<and>
         (\<not> exists_node templateDir (fs w) \<longrightarrow>
            t = fs w \<and> err = SystemError ENOENT templateDir)"
proof -
  from project_run [OF assms(1)] assms(2) obtain b where
    "run_command c name w = (Normal (), console_error ''Error copying template files:'' err
            (console_log Blue b (w\<lparr>fs := t\<rparr>)))"
    by auto
  then have "fst (run_command c name w) = Normal ()" "fs (snd (run_command c name w)) = t"
    "out (snd (run_command c name w))
       = out w @ [ConsoleLog Blue b, ConsoleError ''Error copying template files:'' err]"
    by (simp_all add: console_error_def console_log_def)
  moreover have "t = fs w \<and> err = SystemError ENOENT templateDir"
    if "\<not> exists_node templateDir (fs w)"
    using that assms(2) by (simp add: copy_tree_def exists_node_def)
  ultimately show ?thesis by blast
qed

theorem project_copy_failure_caught_witness:
  "\<not> exists_node [''opt'', ''mern-cli'', ''templates'', ''react''] (fs installed_cli) \<and>
   fst (run_command React ''shop'' installed_cli) = Normal () \<and>
   fs (snd (run_command React ''shop'' installed_cli)) = fs installed_cli \<and>
   \<not> exists_node [''home'', ''app'', ''shop''] (fs (snd (run_command React ''shop'' installed_cli))) \<and>
   out (snd (run_command React ''shop'' installed_cli))
     = [ConsoleLog Blue ''Creating React project: shop'',
        ConsoleError ''Error copying template files:''
          (SystemError ENOENT [''opt'', ''mern-cli'', ''templates'', ''react''])] \<and>
   fst (run_command Express ''shop'' full_disk) = Normal () \<and>
   fs (snd (run_command Express ''shop'' full_disk))
     = fs installed_cli @ [([''home'', ''app'', ''shop''], Dir)] \<and>
   fs (snd (run_command Express ''shop'' full_disk)) \<noteq> fs full_disk"
proof -
  have p1: "project React ''shop'' installed_cli
     = Some ([''opt'', ''mern-cli'', ''templates'', ''react''], [''home'', ''app'', ''shop''])"
    by (simp add: installed_cli_def fs_defs)
  have p2: "project Express ''shop'' full_disk
     = Some ([''opt'', ''mern-cli'', ''templates'', ''express''], [''home'', ''app'', ''shop''])"
    by (simp add: full_disk_def installed_cli_def fs_defs)
  have m: "\<not> exists_node [''opt'', ''mern-cli'', ''templates'', ''react''] (fs installed_cli)"
    by (simp add: installed_cli_def exists_node_def lookup_def)
  have o: "out (snd (run_command React ''shop'' installed_cli))
     = [ConsoleLog Blue ''Creating React project: shop'',
        ConsoleError ''Error copying template files:''
          (SystemError ENOENT [''opt'', ''mern-cli'', ''templates'', ''react''])]"
    by (simp add: react_def world_defs Let_def missing_template_copy [simplified]
        installed_cli_def fs_defs copy_defs)
  have n: "\<not> exists_node [''home'', ''app'', ''shop''] (fs installed_cli)"
    by (simp add: installed_cli_def exists_node_def lookup_def)
  have d: "fs installed_cli @ [([''home'', ''app'', ''shop''], Dir)] \<noteq> fs full_disk"
    by (simp add: full_disk_def)
  from project_copy_failure_caught [OF p1 missing_template_copy]
    project_copy_failure_caught [OF p2 full_disk_copy] m o n d
  show ?thesis by simp
qed

subsection \<open>Failures and the exit status\<close>

text \<open>
  Claim C7, as stated: every failure path of every command is caught and logged, so
  the process always exits 0. It fails for the one call that every action makes before
  its \<^verbatim>\<open>try\<close> block: when the working directory has been removed, \<^verbatim>\<open>process.cwd()\<close>
  throws, nothing catches or prints the error, and the process ends with status 1.
\<close>

theorem removed_cwd_is_not_caught:
  "run_command ExpressModel ''User'' removed_cwd = (Throw (SystemError ENOENT []), removed_cwd) \<and>
   out (snd (run_command ExpressModel ''User'' removed_cwd)) = [] \<and>
   exit_status (run_command ExpressModel ''User'' removed_cwd) = 1 \<and>
   (\<forall>c. exit_status (run_command c ''User'' removed_cwd) \<noteq> 0)"
proof -
  have p: "process_cwd removed_cwd = Throw (SystemError ENOENT [])"
    by (simp add: removed_cwd_def fresh_project_def process_cwd_def lookup_def)
  have r: "run_command c ''User'' removed_cwd = (Throw (SystemError ENOENT []), removed_cwd)"
    for c
    by (cases c) (simp_all add: action_defs p)
  have e: "exit_status (run_command c ''User'' removed_cwd) = 1" for c
    by (simp only: r exit_status_def fst_conv completion.case)
  have o: "out removed_cwd = []" by (simp add: removed_cwd_def fresh_project_def)
  have "out (snd (run_command ExpressModel ''User'' removed_cwd)) = []"
    by (simp only: r snd_conv o)
  with r [of ExpressModel] e show ?thesis by (simp add: exit_status_def)
qed

text \<open>
  Claim C7, amended. Where \<^verbatim>\<open>process.cwd()\<close> returns, every command, for every
  argument and in every state of the file system and its faults, returns normally, so
  the exit status is 0; after its opening line it prints exactly one more message; and
  that message is the error, under the label of the command's \<^verbatim>\<open>catch\<close> block, exactly
  when a file system call of the \<^verbatim>\<open>try\<close> block throws it, the red line when the
  existence check finds the file, and the green line otherwise.
\<close>

theorem failures_in_try_are_logged:
  assumes "process_cwd w = Normal wd"
  shows "fst (run_command c name w) = Normal () \<and> exit_status (run_command c name w) = 0 \<and>
     (\<exists>b m. out (snd (run_command c name w)) = out w @ [ConsoleLog Blue b, m] \<and>
        (case thrown c name w of
           Some err \<Rightarrow> m = ConsoleError (error_label c) err
         | None \<Rightarrow>
             if already_exists c name w then (\<exists>s. m = ConsoleLog Red s)
             else (\<exists>s. m = ConsoleLog Green s)))"
proof -
  from assms process_cwd_cases [of w] have cw: "process_cwd w = Normal (cwd w)" by auto
  have file_command: ?thesis
    if g: "generated_in (cwd w) c name = Some (d, f, x)"
      and p: "project_in (module_dirname w) (cwd w) c name = None"
      and r: "run_command c name w
        = emit (c \<noteq> ReactComponent) d f x em cm (error_label c) (console_log Blue b w)"
    for d f x em cm b
  proof -
    from g p cw have t: "thrown c name w = write_thrown (c \<noteq> ReactComponent) (faults w) d f x (fs w)"
      "already_exists c name w = write_skipped (c \<noteq> ReactComponent) (faults w) d f (fs w)"
      by (simp_all add: thrown_def already_exists_def generated_def project_def)
    from emit_verdict [of "console_log Blue b w" "faults w" "fs w" "c \<noteq> ReactComponent" d f x
        em cm "error_label c"]
    obtain m where
      n: "fst (run_command c name w) = Normal ()" and
      o: "out (snd (run_command c name w)) = out w @ [ConsoleLog Blue b, m]" and
      v: "case thrown c name w of
            Some err \<Rightarrow> m = ConsoleError (error_label c) err
          | None \<Rightarrow>
              if already_exists c name w then (\<exists>s. m = ConsoleLog Red s)
              else (\<exists>s. m = ConsoleLog Green s)"
      unfolding r t by auto
    from o v have "\<exists>b m. out (snd (run_command c name w)) = out w @ [ConsoleLog Blue b, m] \<and>
        (case thrown c name w of
           Some err \<Rightarrow> m = ConsoleError (error_label c) err
         | None \<Rightarrow>
             if already_exists c name w then (\<exists>s. m = ConsoleLog Red s)
             else (\<exists>s. m = ConsoleLog Green s))"
      by blast
    with n show ?thesis by (simp add: exit_status_def)
  qed
  have project_command: ?thesis
    if p: "project c name w = Some (src, dest)" and l: "error_label c = ''Error copying template files:''"
      and g: "generated_in (cwd w) c name = None"
    for src dest
  proof -
    from p g cw have t: "thrown c name w =
        (case copy_tree (faults w) src dest (fs w) of
           (Throw err, _) \<Rightarrow> Some err | (Normal _, _) \<Rightarrow> None)"
      "\<not> already_exists c name w"
      by (simp_all add: thrown_def already_exists_def generated_def)
    from project_run [OF p] t l show ?thesis
      by (auto simp: exit_status_def console_log_def console_error_def
          split: prod.splits completion.splits)
  qed
  show ?thesis
  proof (cases c)
    case Express
    then show ?thesis by (intro project_command) (simp_all add: project_def cw)
  next
    case React
    then show ?thesis by (intro project_command) (simp_all add: project_def cw)
  next
    case ReactComponent
    then show ?thesis
      by (intro file_command) (simp_all add: react_component_emit [OF cw] Let_def)
  next
    case ExpressModel
    then show ?thesis
      by (intro file_command) (simp_all add: express_model_emit [OF cw] Let_def)
  next
    case ExpressController
    then show ?thesis
      by (intro file_command) (simp_all add: express_controller_emit [OF cw] Let_def)
  next
    case ExpressRoute
    then show ?thesis
      by (intro file_command) (simp_all add: express_route_emit [OF cw] Let_def)
  next
    case ExpressMiddleware
    then show ?thesis
      by (intro file_command) (simp_all add: express_middleware_emit [OF cw] Let_def)
  qed
qed

theorem failures_in_try_are_logged_witness:
  "process_cwd read_only_project = Normal [''home'', ''app''] \<and>
   exit_status (run_command ExpressModel ''User'' read_only_project) = 0 \<and>
   (\<exists>b. out (snd (run_command ExpressModel ''User'' read_only_project))
      = [ConsoleLog Blue b,
         ConsoleError ''Error creating model:'' (SystemError EROFS [''home'', ''app'', ''models''])]) \<and>
   process_cwd full_disk = Normal [''home'', ''app''] \<and>
   exit_status (run_command Express ''shop'' full_disk) = 0 \<and>
   (\<exists>b. out (snd (run_command Express ''shop'' full_disk))
      = [ConsoleLog Blue b,
         ConsoleError ''Error copying template files:''
           (SystemError ENOSPC [''home'', ''app'', ''shop'', ''index.js''])])"
proof -
  have p1: "process_cwd read_only_project = Normal [''home'', ''app'']"
    by (simp add: read_only_project_def fresh_project_def process_cwd_def lookup_def)
  have p2: "process_cwd full_disk = Normal [''home'', ''app'']"
    by (simp add: full_disk_def installed_cli_def process_cwd_def lookup_def)
  have t1: "thrown ExpressModel ''User'' read_only_project
      = Some (SystemError EROFS [''home'', ''app'', ''models''])"
    by (simp add: thrown_def write_thrown_def ensure_dir_def read_only_project_def
        fresh_project_def fs_defs)
  have t2: "thrown Express ''shop'' full_disk
      = Some (SystemError ENOSPC [''home'', ''app'', ''shop'', ''index.js''])"
    by (simp add: thrown_def p2 project_def full_disk_copy [simplified])
      (simp add: full_disk_def installed_cli_def fs_defs copy_defs)
  have o1: "out read_only_project = []" "out full_disk = []"
    by (simp_all add: read_only_project_def fresh_project_def full_disk_def installed_cli_def)
  from failures_in_try_are_logged [OF p1, of ExpressModel "''User''"]
    failures_in_try_are_logged [OF p2, of Express "''shop''"] p1 p2
  show ?thesis unfolding t1 t2 o1 by auto
qed

subsection \<open>The confirmation helper\<close>

text \<open>
  Claim C8. No command asks a question on the terminal: the questions asked after a
  run are the questions asked before it, because no action calls
  \<open>askUserConfirmation\<close>.
\<close>

theorem no_command_prompts:
  "prompts (snd (run_command c name w)) = prompts w"
  by (cases c) (auto simp: action_defs world_defs Let_def
      split: prod.splits completion.splits)

text \<open>
  Claim C10. \<^verbatim>\<open>readline\<close> is not bound in the module, so wherever the runtime has no
  global of that name, every call of \<open>askUserConfirmation\<close> throws a reference error
  for \<^verbatim>\<open>readline\<close> and asks nothing.
\<close>

theorem askUserConfirmation_reference_error:
  "''readline'' \<notin> set globals \<Longrightarrow>
   askUserConfirmation globals question w = (Throw (ReferenceError ''readline''), w)"
  by (simp add: askUserConfirmation_def resolve_def module_scope_def)

theorem askUserConfirmation_reference_error_witness:
  "''readline'' \<notin> set [''process'', ''console'', ''Promise''] \<and>
   askUserConfirmation [''process'', ''console'', ''Promise''] ''Overwrite? (y/n) ''
     \<lparr>fs = [], faults = (\<lambda>_. None), cwd = [], module_dirname = [], out = [], prompts = []\<rparr>
   = (Throw (ReferenceError ''readline''),
      \<lparr>fs = [], faults = (\<lambda>_. None), cwd = [], module_dirname = [], out = [], prompts = []\<rparr>)"
  using askUserConfirmation_reference_error [of "[''process'', ''console'', ''Promise'']"]
  by simp


end
